theory Spec2Isabelle
  imports Complex_Main
begin

section \<open>Python strings\<close>

text \<open>
  A Python \<open>str\<close> is modelled as a \<open>string\<close>: one \<open>char\<close> per code point, for the
  code points below 256. \<open>whitespace\<close> lists the code points below 256 for which
  \<open>str.isspace\<close> holds; these are the characters \<open>str.strip()\<close> removes.
\<close>

definition whitespace :: "char list" where
  "whitespace =
     [CHR 0x09, CHR 0x0A, CHR 0x0B, CHR 0x0C, CHR 0x0D, CHR 0x1C, CHR 0x1D, CHR 0x1E,
      CHR 0x1F, CHR 0x20, CHR 0x85, CHR 0xA0]"

definition isspace :: "char \<Rightarrow> bool" where
  "isspace c = (c \<in> set whitespace)"

definition lstrip :: "string \<Rightarrow> string" where
  "lstrip s = dropWhile isspace s"

definition rstrip :: "string \<Rightarrow> string" where
  "rstrip s = rev (dropWhile isspace (rev s))"

definition strip :: "string \<Rightarrow> string" where
  "strip s = rstrip (lstrip s)"

definition startswith :: "string \<Rightarrow> string \<Rightarrow> bool" where
  "startswith s p = (take (length p) s = p)"

definition endswith :: "string \<Rightarrow> string \<Rightarrow> bool" where
  "endswith s p = (drop (length s - length p) s = p)"

text \<open>\<open>py_in sub s\<close> is Python's \<open>sub in s\<close> on strings: \<open>sub\<close> occurs in \<open>s\<close>.\<close>

fun py_in :: "string \<Rightarrow> string \<Rightarrow> bool" where
  "py_in sub [] = (sub = [])"
| "py_in sub (c # cs) = (startswith (c # cs) sub \<or> py_in sub cs)"

text \<open>\<open>str(n)\<close> of an integer: its decimal digits, with a minus sign when negative.\<close>

fun str_nat :: "nat \<Rightarrow> string" where
  "str_nat n =
     (if n < 10 then [''0123456789'' ! n]
      else str_nat (n div 10) @ [''0123456789'' ! (n mod 10)])"

declare str_nat.simps [simp del]

definition str_int :: "int \<Rightarrow> string" where
  "str_int i = (if i < 0 then CHR ''-'' # str_nat (nat (- i)) else str_nat (nat i))"

section \<open>URL normalization (parser.py)\<close>

definition STARTPAGE_BASE_URL :: string where
  "STARTPAGE_BASE_URL = ''https://www.startpage.com''"

text \<open>
  \<open>StartpageParser._normalize_url\<close>. The argument is \<open>Optional[str]\<close>; \<open>not url\<close>
  holds for \<open>None\<close> and for the empty string.
\<close>

definition normalize_url :: "string option \<Rightarrow> string \<Rightarrow> string" where
  "normalize_url url base_url =
     (case url of
        None \<Rightarrow> []
      | Some u0 \<Rightarrow>
          if u0 = [] then []
          else
            let u = strip u0 in
            if startswith u ''//'' then ''https:'' @ u
            else if startswith u ''/'' then
              (if endswith base_url ''/'' \<and> startswith u ''/'' then base_url @ drop 1 u
               else base_url @ u)
            else u)"

section \<open>Python values and dictionaries\<close>

text \<open>
  Values of type \<open>Any\<close> and \<open>Optional[...]\<close>. \<open>PNone\<close> is \<open>None\<close>; a float is
  carried as \<open>PFloat r\<close> where \<open>r\<close> is the text \<open>str()\<close> gives for it (float arithmetic
  is not part of any function modelled here, only \<open>str\<close> and truth tests).
\<close>

datatype pyval = PNone | PBool bool | PInt int | PFloat string | PStr string

fun truthy :: "pyval \<Rightarrow> bool" where
  "truthy PNone = False"
| "truthy (PBool b) = b"
| "truthy (PInt i) = (i \<noteq> 0)"
| "truthy (PFloat r) = (r \<noteq> ''0.0'' \<and> r \<noteq> ''-0.0'')"
| "truthy (PStr s) = (s \<noteq> [])"

fun py_str :: "pyval \<Rightarrow> string" where
  "py_str PNone = ''None''"
| "py_str (PBool b) = (if b then ''True'' else ''False'')"
| "py_str (PInt i) = str_int i"
| "py_str (PFloat r) = r"
| "py_str (PStr s) = s"

text \<open>
  A \<open>dict\<close> with string keys, in insertion order. \<open>dict_set\<close> is \<open>d[k] = v\<close>: an existing
  key keeps its position, a new key goes last. \<open>dict_update\<close> is \<open>d.update(e)\<close> and
  \<open>dict_pop\<close> removes a key.
\<close>

type_synonym dict = "(string \<times> pyval) list"

fun dict_set :: "'k \<Rightarrow> 'v \<Rightarrow> ('k \<times> 'v) list \<Rightarrow> ('k \<times> 'v) list" where
  "dict_set k v [] = [(k, v)]"
| "dict_set k v ((k', v') # d) = (if k' = k then (k, v) # d else (k', v') # dict_set k v d)"

definition dict_update :: "dict \<Rightarrow> dict \<Rightarrow> dict" where
  "dict_update d e = foldl (\<lambda>acc (k, v). dict_set k v acc) d e"

definition dict_pop :: "string \<Rightarrow> dict \<Rightarrow> dict" where
  "dict_pop k d = filter (\<lambda>(k', v). k' \<noteq> k) d"

definition dict_keys :: "dict \<Rightarrow> string list" where
  "dict_keys d = map fst d"

text \<open>
  \<open>TABLE.get(key, default)\<close> on one of the static tables, whose keys and values are
  strings. A key that is not a string equals no key of the table.
\<close>

definition table_get :: "(string \<times> string) list \<Rightarrow> pyval \<Rightarrow> pyval \<Rightarrow> pyval" where
  "table_get tbl key dflt =
     (case key of
        PStr s \<Rightarrow> (case map_of tbl s of Some v \<Rightarrow> PStr v | None \<Rightarrow> dflt)
      | _ \<Rightarrow> dflt)"

section \<open>Constants (endpoints.py)\<close>

definition BASE_URL :: string where
  "BASE_URL = ''https://www.startpage.com''"

definition SEARCH_URL :: string where
  "SEARCH_URL = BASE_URL @ ''/sp/search''"

definition DEFAULT_HEADERS :: "(string \<times> string) list" where
  "DEFAULT_HEADERS =
     [(''User-Agent'',
       ''Mozilla/5.0 (Windows NT 10.0; Win64; x64) AppleWebKit/537.36 (KHTML, like Gecko) Chrome/120.0.0.0 Safari/537.36''),
      (''Accept'', ''text/html,application/xhtml+xml,application/xml;q=0.9,image/webp,*/*;q=0.8''),
      (''Accept-Language'', ''en-US,en;q=0.5''),
      (''Accept-Encoding'', ''gzip, deflate, br''),
      (''DNT'', ''1''),
      (''Connection'', ''keep-alive''),
      (''Upgrade-Insecure-Requests'', ''1''),
      (''Sec-Fetch-Dest'', ''document''),
      (''Sec-Fetch-Mode'', ''navigate''),
      (''Sec-Fetch-Site'', ''none''),
      (''Cache-Control'', ''max-age=0'')]"

definition LANGUAGE_CODES :: "(string \<times> string) list" where
  "LANGUAGE_CODES =
     [(''english'', ''en''), (''german'', ''de''), (''french'', ''fr''), (''spanish'', ''es''),
      (''italian'', ''it''), (''dutch'', ''nl''), (''portuguese'', ''pt''), (''russian'', ''ru''),
      (''chinese'', ''zh''), (''japanese'', ''ja'')]"

definition REGION_CODES :: "(string \<times> string) list" where
  "REGION_CODES =
     [(''all'', ''all''), (''us'', ''us''), (''uk'', ''uk''), (''ca'', ''ca''), (''au'', ''au''),
      (''de'', ''de''), (''fr'', ''fr''), (''es'', ''es''), (''it'', ''it''), (''nl'', ''nl'')]"

definition SAFE_SEARCH_LEVELS :: "(string \<times> string) list" where
  "SAFE_SEARCH_LEVELS = [(''strict'', ''1''), (''moderate'', ''0''), (''off'', ''2'')]"

definition TIME_FILTERS :: "(string \<times> string) list" where
  "TIME_FILTERS =
     [(''any'', []), (''day'', ''d''), (''week'', ''w''), (''month'', ''m''), (''year'', ''y'')]"

definition IMAGE_SIZES :: "(string \<times> string) list" where
  "IMAGE_SIZES =
     [(''any'', []), (''small'', ''s''), (''medium'', ''m''), (''large'', ''l''),
      (''wallpaper'', ''w'')]"

definition VIDEO_DURATIONS :: "(string \<times> string) list" where
  "VIDEO_DURATIONS = [(''any'', []), (''short'', ''s''), (''medium'', ''m''), (''long'', ''l'')]"

definition ADVANCED_SEARCH_PARAMS :: "(string \<times> string) list" where
  "ADVANCED_SEARCH_PARAMS =
     [(''search_source'', ''sc''), (''search_results'', ''sr''),
      (''search_expander_api_path'', ''sxap''),
      (''query_instant_mode_search_number'', ''qimsn''),
      (''time_filter'', ''with_date''), (''ad_block_plus'', ''abp''),
      (''search_type_modifier'', ''t'')]"

section \<open>Errors\<close>

text \<open>
  Modelled from the spec: \<open>exceptions.py\<close>, which declares the Startpage exception
  classes, is not among the sources. The error kinds are the classes \<open>client.py\<close> and
  \<open>parser.py\<close> import and raise, with the constructor arguments used there;
  \<open>ValueError\<close> and \<open>TypeError\<close> are Python's own. \<open>str()\<close> of a
  \<open>StartpageParseError\<close> is taken to be its message.
\<close>

datatype exn =
    ValueError string
  | TypeError string
  | StartpageError string
  | StartpageHTTPError int string
  | StartpageRateLimitError string
  | StartpageParseError string

section \<open>Client state and the outside world\<close>

text \<open>
  The fields of a \<open>StartpageAPI\<close> instance that its methods read or write. Time is
  counted in seconds as a rational number.
\<close>

record client =
  proxy :: "string option"
  timeout :: int
  delay :: rat
  last_request_time :: rat

text \<open>
  One call of \<open>urlopen\<close> or \<open>opener.open\<close>: the URL, the form data (\<open>None\<close> for a
  GET), the headers, the proxy in use and the timeout.
\<close>

record request =
  req_url :: string
  req_data :: "dict option"
  req_headers :: "(string \<times> string) list"
  req_proxy :: "string option"
  req_timeout :: int

text \<open>
  The world outside the process: the clock read by \<open>time.time()\<close> and advanced by
  \<open>time.sleep\<close>, and the log of the requests handed to the network so far.
\<close>

record world =
  clock :: rat
  sent :: "request list"

text \<open>
  What \<open>urllib\<close> gives once a request is handed to it (\<open>urlopen\<close> or
  \<open>opener.open\<close>, and reading the response): a response (its body and its
  \<open>content-encoding\<close> header); an \<open>urllib.error.HTTPError\<close>, which is how it
  reports a response with an HTTP error status, with that status code and the reason;
  an \<open>urllib.error.URLError\<close>, which is how it reports a failed connection, name
  lookup or connection timeout, with its reason; or any other exception, with its
  \<open>str()\<close>.
\<close>

datatype outcome =
    Response string "string option"
  | HTTPError int string
  | URLError string
  | OtherError string

section \<open>Parsed documents\<close>

datatype json =
    JNull
  | JBool bool
  | JInt int
  | JFloat string
  | JStr string
  | JArr "json list"
  | JObj "(string \<times> json) list"

text \<open>
  What \<open>parse_suggestions\<close> reads from an element: the attributes \<open>value\<close> and
  \<open>data-suggestion\<close>, and the text \<open>_extract_text\<close> gives.
\<close>

record element =
  el_value :: "string option"
  el_data_suggestion :: "string option"
  el_text :: string

text \<open>
  What \<open>parse_suggestions\<close> asks of a parsed page: \<open>soup.select(selector)\<close> and the
  \<open>find_all\<close> for elements whose class matches \<open>suggest|autocomplete\<close>.
\<close>

record soup =
  select :: "string \<Rightarrow> element list"
  find_all_suggest :: "element list"

record panel =
  title :: string
  description :: string
  facts :: "(string \<times> string) list"
  source :: string

record answer_bundle =
  instant_answer :: "string option"
  knowledge_panel :: "panel option"

text \<open>
  The libraries and the markup-dependent extractors the modelled functions call, as
  parameters: the making of the request object (\<open>request_error\<close> is the \<open>str()\<close> of
  the exception that \<open>urlencode\<close>, \<open>Request(...)\<close> or the proxy set-up raises for
  a request, \<open>None\<close> when they raise none; \<open>Request\<close> raises for a URL without a
  scheme, for one), the network (\<open>urlopen\<close>, which may depend on the world), \<open>gzip\<close>,
  \<open>bytes.decode\<close>, \<open>json.loads\<close> (\<open>None\<close> when it raises), BeautifulSoup
  (\<open>None\<close> when it raises), the five per-category result parsers (an exception they
  raise is given by its class name and its \<open>str()\<close>), and the instant-answer and
  knowledge-panel detectors of \<open>client.py\<close>, each a function of the page and the query.
\<close>

record 'p env =
  request_error :: "request \<Rightarrow> string option"
  urlopen :: "world \<Rightarrow> request \<Rightarrow> outcome"
  gzip_decompress :: "string \<Rightarrow> string + string"
  utf8_decode :: "string \<Rightarrow> string"
  json_loads :: "string \<Rightarrow> json option"
  html_soup :: "string \<Rightarrow> soup option"
  category_parser :: "string \<Rightarrow> string \<Rightarrow> (string \<times> string) + 'p"
  extract_instant_answer_from_sxpr :: "string \<Rightarrow> string \<Rightarrow> string option"
  extract_calculator_answer :: "string \<Rightarrow> string option"
  extract_time_date_answer :: "string \<Rightarrow> string \<Rightarrow> string option"
  extract_weather_answer :: "string \<Rightarrow> string \<Rightarrow> string option"
  extract_knowledge_panel_from_sxpr :: "string \<Rightarrow> panel option"
  extract_generic_knowledge_panel :: "string \<Rightarrow> panel option"

section \<open>Transport (client.py)\<close>

text \<open>
  \<open>StartpageAPI.__init__\<close>, for the fields modelled (the session id and the
  asynchronous wrapper are left out).
\<close>

definition init_client :: "string option \<Rightarrow> int \<Rightarrow> rat \<Rightarrow> client" where
  "init_client prx tmo dly =
     \<lparr>proxy = prx, timeout = tmo, delay = dly, last_request_time = 0\<rparr>"

text \<open>
  Every method that has an effect takes the client and the world and returns them
  updated, next to its result; a raised exception is \<open>Inl\<close>.
\<close>

definition get_headers :: "string option \<Rightarrow> (string \<times> string) list" where
  "get_headers referer =
     (case referer of
        None \<Rightarrow> DEFAULT_HEADERS
      | Some r \<Rightarrow> if r \<noteq> [] then dict_set ''Referer'' r DEFAULT_HEADERS else DEFAULT_HEADERS)"

definition respect_delay :: "client \<Rightarrow> world \<Rightarrow> client \<times> world" where
  "respect_delay c w =
     (let current_time = clock w;
          time_since_last = current_time - last_request_time c;
          w' = (if time_since_last < delay c
                then w\<lparr>clock := clock w + (delay c - time_since_last)\<rparr>
                else w)
      in (c\<lparr>last_request_time := clock w'\<rparr>, w'))"

text \<open>
  The request \<open>_make_request\<close> builds: a POST when \<open>data\<close> is a non-empty
  dictionary, a GET otherwise; through the proxy when one is configured.
\<close>

definition prepare_request ::
  "client \<Rightarrow> string \<Rightarrow> dict option \<Rightarrow> (string \<times> string) list option \<Rightarrow> request" where
  "prepare_request c url data headers =
     \<lparr>req_url = url,
      req_data = (case data of None \<Rightarrow> None | Some d \<Rightarrow> if d \<noteq> [] then Some d else None),
      req_headers = (case headers of None \<Rightarrow> get_headers None | Some h \<Rightarrow> h),
      req_proxy = (case proxy c of None \<Rightarrow> None | Some p \<Rightarrow> if p \<noteq> [] then Some p else None),
      req_timeout = timeout c\<rparr>"

text \<open>
  \<open>StartpageAPI._make_request\<close>. After the throttle, the \<open>try\<close> block first makes
  the request object; an exception there reaches the last \<open>except\<close> clause and nothing
  has been sent. Otherwise the request is opened, once, and logged. The three
  \<open>except\<close> clauses give the failure branches, the first splitting on the status 429.
  A failure of \<open>gzip.decompress\<close> is inside the \<open>try\<close> and falls to the last clause.
\<close>

definition make_request ::
  "'p env \<Rightarrow> client \<Rightarrow> world \<Rightarrow> string \<Rightarrow> dict option \<Rightarrow> (string \<times> string) list option
     \<Rightarrow> (exn + string) \<times> client \<times> world" where
  "make_request ev c w url data headers =
     (let (c1, w1) = respect_delay c w;
          req = prepare_request c1 url data headers
      in case request_error ev req of
           Some msg \<Rightarrow>
             (Inl (StartpageError
                (''Request failed due to an unexpected error: '' @ msg)), c1, w1)
         | None \<Rightarrow>
             (let w2 = w1\<lparr>sent := sent w1 @ [req]\<rparr>
              in case urlopen ev w1 req of
                   Response content encoding \<Rightarrow>
                     (if encoding = Some ''gzip'' then
                        (case gzip_decompress ev content of
                           Inl msg \<Rightarrow>
                             (Inl (StartpageError
                                (''Request failed due to an unexpected error: '' @ msg)), c1, w2)
                         | Inr raw \<Rightarrow> (Inr (utf8_decode ev raw), c1, w2))
                      else (Inr (utf8_decode ev content), c1, w2))
                 | HTTPError code reason \<Rightarrow>
                     (if code = 429 then
                        (Inl (StartpageRateLimitError
                           (''Rate limit exceeded: '' @ str_int code @ '' '' @ reason)), c1, w2)
                      else
                        (Inl (StartpageHTTPError code
                           (''HTTP error: '' @ str_int code @ '' '' @ reason)), c1, w2))
                 | URLError reason \<Rightarrow>
                     (Inl (StartpageError (''Network error: '' @ reason)), c1, w2)
                 | OtherError msg \<Rightarrow>
                     (Inl (StartpageError
                        (''Request failed due to an unexpected error: '' @ msg)), c1, w2)))"

section \<open>Result parsing dispatch (parser.py)\<close>

definition known_search_types :: "string list" where
  "known_search_types = [''web'', ''images'', ''videos'', ''news'', ''places'']"

definition parse_failure_message :: "string \<Rightarrow> string \<Rightarrow> string \<Rightarrow> string" where
  "parse_failure_message search_type error_type text =
     ''Failed to parse '' @ [CHR 0x27] @ search_type @ [CHR 0x27] @ '' results due to ''
       @ error_type @ '': '' @ text"

text \<open>
  \<open>StartpageParser.parse_search_results\<close>. The \<open>raise\<close> for an unknown search type is
  inside the \<open>try\<close>, so the \<open>except Exception\<close> clause catches it and wraps it like
  any exception of a category parser.
\<close>

definition parse_search_results :: "'p env \<Rightarrow> string \<Rightarrow> string \<Rightarrow> exn + 'p" where
  "parse_search_results ev html search_type =
     (if html = [] then Inl (StartpageParseError ''Cannot parse empty HTML content.'')
      else if search_type \<in> set known_search_types then
        (case category_parser ev search_type html of
           Inr res \<Rightarrow> Inr res
         | Inl (error_type, text) \<Rightarrow>
             Inl (StartpageParseError (parse_failure_message search_type error_type text)))
      else
        Inl (StartpageParseError
          (parse_failure_message search_type ''StartpageParseError''
             (''Unknown search type for parsing: '' @ search_type))))"

section \<open>Request builder (client.py)\<close>

text \<open>
  The named parameters of \<open>_build_search_params\<close> and \<open>_perform_search_request\<close>,
  and the dictionary \<open>**kwargs\<close> collects. The parameters that may be \<open>None\<close> or may
  be bound from a caller's extra keyword arguments are \<open>pyval\<close>s.
\<close>

record search_args =
  query :: string
  category :: pyval
  language :: string
  region :: string
  page :: int
  results_per_page :: int
  safe_search :: pyval
  time_filter :: pyval
  size_filter :: pyval
  duration :: pyval
  latitude :: pyval
  longitude :: pyval
  radius :: pyval
  kwargs :: dict

text \<open>\<open>StartpageAPI._build_search_params\<close>; \<open>size_filter\<close> is its parameter \<open>size\<close>.\<close>

definition build_search_params :: "search_args \<Rightarrow> exn + dict" where
  "build_search_params a =
     (if strip (query a) = [] then Inl (ValueError ''Query cannot be empty.'')
      else
        let params =
              [(''query'', PStr (strip (query a))),
               (''cat'', category a),
               (''cmd'', PStr ''process_search''),
               (''language'', table_get LANGUAGE_CODES (PStr (language a)) (PStr (language a))),
               (''lui'', table_get LANGUAGE_CODES (PStr (language a)) (PStr (language a))),
               (''pl'', table_get REGION_CODES (PStr (region a)) (PStr (region a))),
               (''startat'', PStr (str_int ((page a - 1) * results_per_page a)))];
            params =
              (if truthy (safe_search a) \<and> category a \<notin> set [PStr ''news'', PStr ''places'']
               then dict_set ''ff'' (table_get SAFE_SEARCH_LEVELS (safe_search a) (PStr ''0'')) params
               else params);
            params =
              (if category a = PStr ''web''
               then dict_set ''num'' (PStr (str_int (results_per_page a))) params
               else params);
            params =
              (if truthy (time_filter a) \<and> time_filter a \<noteq> PStr ''any''
                  \<and> category a \<in> set [PStr ''web'', PStr ''video'', PStr ''news'']
               then dict_set ''with_date'' (table_get TIME_FILTERS (time_filter a) (time_filter a)) params
               else params);
            params =
              (if truthy (size_filter a) \<and> size_filter a \<noteq> PStr ''any''
                  \<and> category a = PStr ''images''
               then dict_set ''size'' (table_get IMAGE_SIZES (size_filter a) (size_filter a)) params
               else params);
            params =
              (if truthy (duration a) \<and> duration a \<noteq> PStr ''any''
                  \<and> category a = PStr ''video''
               then dict_set ''duration'' (table_get VIDEO_DURATIONS (duration a) (duration a)) params
               else params);
            params =
              (if latitude a \<noteq> PNone \<and> longitude a \<noteq> PNone \<and> category a = PStr ''places''
               then dict_set ''longitude'' (PStr (py_str (longitude a)))
                      (dict_set ''latitude'' (PStr (py_str (latitude a))) params)
               else params);
            params =
              (if radius a \<noteq> PNone \<and> category a = PStr ''places''
               then dict_set ''radius'' (PStr (py_str (radius a))) params
               else params)
        in Inr (dict_update params (kwargs a)))"

text \<open>
  \<open>StartpageAPI._perform_search_request\<close>: build, send as form data, parse.
\<close>

definition perform_search_request ::
  "'p env \<Rightarrow> client \<Rightarrow> world \<Rightarrow> search_args \<Rightarrow> string \<Rightarrow> (exn + 'p) \<times> client \<times> world" where
  "perform_search_request ev c w a category_for_parser =
     (case build_search_params a of
        Inl e \<Rightarrow> (Inl e, c, w)
      | Inr params \<Rightarrow>
          (case make_request ev c w SEARCH_URL (Some params) None of
             (Inl e, c', w') \<Rightarrow> (Inl e, c', w')
           | (Inr html_content, c', w') \<Rightarrow>
               (parse_search_results ev html_content category_for_parser, c', w')))"

section \<open>Calls with extra keyword arguments\<close>

definition perform_param_names :: "string list" where
  "perform_param_names =
     [''query'', ''category'', ''category_for_parser'', ''language'', ''region'',
      ''safe_search'', ''page'', ''results_per_page'', ''time_filter'', ''size'', ''duration'',
      ''latitude'', ''longitude'', ''radius'']"

text \<open>
  A call \<open>self._perform_search_request(name=value, ..., **kw)\<close>, as Python binds it.
  \<open>explicit\<close> lists the keywords the call site writes out, \<open>a\<close> holds their values
  and, for the optional parameters the call site leaves out, the defaults of the
  signature. A key of \<open>kw\<close> that repeats a written-out keyword is a \<open>TypeError\<close>.
  Otherwise an optional parameter that \<open>kw\<close> names takes its value from \<open>kw\<close>, and
  the keys that name no parameter are what \<open>**kwargs\<close> receives. (\<open>language\<close>,
  \<open>region\<close>, \<open>page\<close> and \<open>results_per_page\<close> are written out at every call site
  but the one in \<open>advanced_search\<close>, whose dictionary holds only \<open>cmd\<close> and values of
  \<open>ADVANCED_SEARCH_PARAMS\<close>.)
\<close>

definition bind_perform_call :: "string list \<Rightarrow> search_args \<Rightarrow> dict \<Rightarrow> exn + search_args" where
  "bind_perform_call explicit a kw =
     (case find (\<lambda>k. k \<in> set explicit) (dict_keys kw) of
        Some k \<Rightarrow>
          Inl (TypeError
            (''StartpageAPI._perform_search_request() got multiple values for keyword argument ''
               @ [CHR 0x27] @ k @ [CHR 0x27]))
      | None \<Rightarrow>
          (let bound = (\<lambda>name dflt. case map_of kw name of Some v \<Rightarrow> v | None \<Rightarrow> dflt)
           in Inr (a\<lparr>safe_search := bound ''safe_search'' (safe_search a),
                     time_filter := bound ''time_filter'' (time_filter a),
                     size_filter := bound ''size'' (size_filter a),
                     duration := bound ''duration'' (duration a),
                     latitude := bound ''latitude'' (latitude a),
                     longitude := bound ''longitude'' (longitude a),
                     radius := bound ''radius'' (radius a),
                     kwargs := filter (\<lambda>(k, v). k \<notin> set perform_param_names) kw\<rparr>)))"

definition call_perform_search_request ::
  "'p env \<Rightarrow> client \<Rightarrow> world \<Rightarrow> string list \<Rightarrow> search_args \<Rightarrow> string \<Rightarrow> dict
     \<Rightarrow> (exn + 'p) \<times> client \<times> world" where
  "call_perform_search_request ev c w explicit a category_for_parser kw =
     (case bind_perform_call explicit a kw of
        Inl e \<Rightarrow> (Inl e, c, w)
      | Inr a' \<Rightarrow> perform_search_request ev c w a' category_for_parser)"

section \<open>Public search operations (client.py)\<close>

text \<open>
  Each operation takes the arguments of its signature, in the signature's order, and
  then its extra keyword arguments. \<open>no_filters\<close> holds the defaults of the optional
  parameters of \<open>_perform_search_request\<close>.
\<close>

definition no_filters :: search_args where
  "no_filters =
     \<lparr>query = [], category = PNone, language = ''en'', region = ''all'', page = 1,
      results_per_page = 10, safe_search = PStr ''moderate'', time_filter = PNone,
      size_filter = PNone, duration = PNone, latitude = PNone, longitude = PNone,
      radius = PNone, kwargs = []\<rparr>"

text \<open>
  The keywords each operation writes out in its call of \<open>_perform_search_request\<close>.
\<close>

definition search_keywords :: "string list" where
  "search_keywords =
     [''query'', ''category'', ''category_for_parser'', ''language'', ''region'',
      ''safe_search'', ''page'', ''results_per_page'', ''time_filter'']"

definition images_search_keywords :: "string list" where
  "images_search_keywords =
     [''query'', ''category'', ''category_for_parser'', ''language'', ''region'',
      ''safe_search'', ''page'', ''results_per_page'', ''size'']"

definition videos_search_keywords :: "string list" where
  "videos_search_keywords =
     [''query'', ''category'', ''category_for_parser'', ''language'', ''region'',
      ''safe_search'', ''page'', ''results_per_page'', ''duration'', ''time_filter'']"

definition news_search_keywords :: "string list" where
  "news_search_keywords =
     [''query'', ''category'', ''category_for_parser'', ''language'', ''region'',
      ''safe_search'', ''page'', ''results_per_page'', ''time_filter'']"

definition places_search_keywords :: "string list" where
  "places_search_keywords =
     [''query'', ''category'', ''category_for_parser'', ''language'', ''region'',
      ''safe_search'', ''page'', ''results_per_page'', ''latitude'', ''longitude'',
      ''radius'']"

definition search ::
  "'p env \<Rightarrow> client \<Rightarrow> world \<Rightarrow> string \<Rightarrow> string \<Rightarrow> string \<Rightarrow> string \<Rightarrow> string \<Rightarrow> int \<Rightarrow> int \<Rightarrow> dict
     \<Rightarrow> (exn + 'p) \<times> client \<times> world" where
  "search ev c w q lang reg safe tf pg rpp kw =
     call_perform_search_request ev c w
       search_keywords
       (no_filters\<lparr>query := q, category := PStr ''web'', language := lang, region := reg,
          safe_search := PStr safe, page := pg, results_per_page := rpp,
          time_filter := PStr tf\<rparr>)
       ''web'' kw"

definition images_search ::
  "'p env \<Rightarrow> client \<Rightarrow> world \<Rightarrow> string \<Rightarrow> string \<Rightarrow> string \<Rightarrow> string \<Rightarrow> string \<Rightarrow> int \<Rightarrow> int \<Rightarrow> dict
     \<Rightarrow> (exn + 'p) \<times> client \<times> world" where
  "images_search ev c w q lang reg safe sz pg rpp kw =
     call_perform_search_request ev c w
       images_search_keywords
       (no_filters\<lparr>query := q, category := PStr ''pics'', language := lang, region := reg,
          safe_search := PStr safe, page := pg, results_per_page := rpp,
          size_filter := PStr sz\<rparr>)
       ''images'' kw"

definition videos_search ::
  "'p env \<Rightarrow> client \<Rightarrow> world \<Rightarrow> string \<Rightarrow> string \<Rightarrow> string \<Rightarrow> string \<Rightarrow> string \<Rightarrow> string \<Rightarrow> int \<Rightarrow> int
     \<Rightarrow> dict \<Rightarrow> (exn + 'p) \<times> client \<times> world" where
  "videos_search ev c w q lang reg safe dur tf pg rpp kw =
     call_perform_search_request ev c w
       videos_search_keywords
       (no_filters\<lparr>query := q, category := PStr ''video'', language := lang, region := reg,
          safe_search := PStr safe, page := pg, results_per_page := rpp,
          duration := PStr dur, time_filter := PStr tf\<rparr>)
       ''videos'' kw"

definition news_search ::
  "'p env \<Rightarrow> client \<Rightarrow> world \<Rightarrow> string \<Rightarrow> string \<Rightarrow> string \<Rightarrow> string \<Rightarrow> int \<Rightarrow> int \<Rightarrow> dict
     \<Rightarrow> (exn + 'p) \<times> client \<times> world" where
  "news_search ev c w q lang reg tf pg rpp kw =
     call_perform_search_request ev c w
       news_search_keywords
       (no_filters\<lparr>query := q, category := PStr ''news'', language := lang, region := reg,
          safe_search := PNone, page := pg, results_per_page := rpp,
          time_filter := PStr tf\<rparr>)
       ''news'' kw"

definition places_search ::
  "'p env \<Rightarrow> client \<Rightarrow> world \<Rightarrow> string \<Rightarrow> string \<Rightarrow> string \<Rightarrow> pyval \<Rightarrow> pyval \<Rightarrow> pyval \<Rightarrow> int \<Rightarrow> int
     \<Rightarrow> dict \<Rightarrow> (exn + 'p) \<times> client \<times> world" where
  "places_search ev c w q lang reg lat lon rad pg rpp kw =
     call_perform_search_request ev c w
       places_search_keywords
       (no_filters\<lparr>query := q, category := PStr ''map'', language := lang, region := reg,
          safe_search := PNone, page := pg, results_per_page := rpp,
          latitude := lat, longitude := lon, radius := rad\<rparr>)
       ''places'' kw"

text \<open>
  \<open>StartpageAPI.advanced_search\<close>. The loop over \<open>kwargs.items()\<close> is
  \<open>advanced_step\<close> folded over the extra keyword arguments; the query and the category
  are popped from the dictionary it leaves and the rest is passed on as \<open>**params\<close>.
\<close>

definition advanced_step :: "dict \<Rightarrow> string \<times> pyval \<Rightarrow> dict" where
  "advanced_step params kv =
     (case kv of (key, val) \<Rightarrow>
        (case map_of ADVANCED_SEARCH_PARAMS key of
           Some startpage_param_key \<Rightarrow> dict_set startpage_param_key val params
         | None \<Rightarrow> if key \<in> set (dict_keys params) then dict_set key val params else params))"

definition advanced_search ::
  "'p env \<Rightarrow> client \<Rightarrow> world \<Rightarrow> string \<Rightarrow> dict \<Rightarrow> (exn + 'p) \<times> client \<times> world" where
  "advanced_search ev c w q kw =
     (if strip q = [] then
        (Inl (ValueError ''Query cannot be empty for advanced search.''), c, w)
      else
        let params = [(''query'', PStr (strip q)), (''cat'', PStr ''web''),
                      (''cmd'', PStr ''process_search'')];
            params = foldl advanced_step params kw;
            popped_query = (case map_of params ''query'' of Some v \<Rightarrow> v | None \<Rightarrow> PNone);
            params = dict_pop ''query'' params;
            popped_cat = (case map_of params ''cat'' of Some v \<Rightarrow> v | None \<Rightarrow> PNone);
            params = dict_pop ''cat'' params
        in call_perform_search_request ev c w
             [''query'', ''category'', ''category_for_parser'']
             (no_filters\<lparr>query := py_str popped_query, category := popped_cat\<rparr>)
             ''web'' params)"

section \<open>Instant answers (client.py)\<close>

text \<open>\<open>not x\<close> for an \<open>Optional[str]\<close> holds for \<open>None\<close> and for the empty string.\<close>

definition answer_found :: "string option \<Rightarrow> bool" where
  "answer_found x = (case x of None \<Rightarrow> False | Some s \<Rightarrow> s \<noteq> [])"

text \<open>The four attempts at an instant answer, each made only while none is found.\<close>

definition detect_instant_answer :: "'p env \<Rightarrow> string \<Rightarrow> string \<Rightarrow> string option" where
  "detect_instant_answer ev html_content q =
     (let ia = None;
          ia = (if \<not> answer_found ia then extract_instant_answer_from_sxpr ev html_content q else ia);
          ia = (if \<not> answer_found ia then extract_calculator_answer ev html_content else ia);
          ia = (if \<not> answer_found ia then extract_time_date_answer ev html_content q else ia);
          ia = (if \<not> answer_found ia then extract_weather_answer ev html_content q else ia)
      in ia)"

text \<open>
  The two attempts at a knowledge panel. A panel is a dictionary with four keys, so
  \<open>not knowledge_panel\<close> holds only for \<open>None\<close>.
\<close>

definition detect_knowledge_panel :: "'p env \<Rightarrow> string \<Rightarrow> panel option" where
  "detect_knowledge_panel ev html_content =
     (case extract_knowledge_panel_from_sxpr ev html_content of
        Some p \<Rightarrow> Some p
      | None \<Rightarrow> extract_generic_knowledge_panel ev html_content)"

text \<open>The last step of \<open>instant_answers\<close>: clearing one of two similar findings.\<close>

definition assemble_bundle :: "string option \<Rightarrow> panel option \<Rightarrow> answer_bundle" where
  "assemble_bundle ia kp =
     (case ia of
        None \<Rightarrow> \<lparr>instant_answer = ia, knowledge_panel = kp\<rparr>
      | Some a \<Rightarrow>
          (case kp of
             None \<Rightarrow> \<lparr>instant_answer = ia, knowledge_panel = kp\<rparr>
           | Some p \<Rightarrow>
               if a \<noteq> [] \<and> description p \<noteq> [] then
                 (if py_in a (description p) \<or> py_in (description p) a then
                    (if title p \<noteq> [] then \<lparr>instant_answer = None, knowledge_panel = kp\<rparr>
                     else \<lparr>instant_answer = ia, knowledge_panel = None\<rparr>)
                  else \<lparr>instant_answer = ia, knowledge_panel = kp\<rparr>)
               else \<lparr>instant_answer = ia, knowledge_panel = kp\<rparr>))"

definition instant_answers ::
  "'p env \<Rightarrow> client \<Rightarrow> world \<Rightarrow> string \<Rightarrow> string \<Rightarrow> dict
     \<Rightarrow> (exn + answer_bundle) \<times> client \<times> world" where
  "instant_answers ev c w q lang kw =
     (if strip q = [] then
        (Inr \<lparr>instant_answer = None, knowledge_panel = None\<rparr>, c, w)
      else
        let search_params =
              [(''query'', PStr (strip q)),
               (''cat'', PStr ''web''),
               (''cmd'', PStr ''process_search''),
               (''language'', table_get LANGUAGE_CODES (PStr lang) (PStr lang)),
               (''lui'', table_get LANGUAGE_CODES (PStr lang) (PStr lang))];
            search_params = dict_update search_params kw
        in case make_request ev c w SEARCH_URL (Some search_params) None of
             (Inl e, c', w') \<Rightarrow> (Inl e, c', w')
           | (Inr html_content, c', w') \<Rightarrow>
               (Inr (assemble_bundle (detect_instant_answer ev html_content q)
                       (detect_knowledge_panel ev html_content)), c', w'))"

section \<open>Suggestions (parser.py)\<close>

text \<open>
  \<open>str(s)\<close> for the entries of the JSON list that pass
  \<open>isinstance(s, (str, int, float))\<close>; a JSON boolean is a Python \<open>bool\<close>, which is an
  \<open>int\<close>.
\<close>

fun suggestion_of_json :: "json \<Rightarrow> string option" where
  "suggestion_of_json (JStr s) = Some s"
| "suggestion_of_json (JInt i) = Some (str_int i)"
| "suggestion_of_json (JFloat r) = Some r"
| "suggestion_of_json (JBool b) = Some (if b then ''True'' else ''False'')"
| "suggestion_of_json JNull = None"
| "suggestion_of_json (JArr xs) = None"
| "suggestion_of_json (JObj kvs) = None"

definition suggestion_item_selectors :: "string list" where
  "suggestion_item_selectors =
     [''li.suggestion-item'', ''div.autocomplete-suggestion'', ''option'',
      ''li[role='' @ [CHR 0x27] @ ''option'' @ [CHR 0x27] @ '']'']"

definition element_text :: "element \<Rightarrow> string" where
  "element_text elem =
     (case el_value elem of
        Some v \<Rightarrow> if v \<noteq> [] then v
                  else (case el_data_suggestion elem of
                          Some d \<Rightarrow> if d \<noteq> [] then d else el_text elem
                        | None \<Rightarrow> el_text elem)
      | None \<Rightarrow> (case el_data_suggestion elem of
                   Some d \<Rightarrow> if d \<noteq> [] then d else el_text elem
                 | None \<Rightarrow> el_text elem))"

definition add_suggestion :: "string list \<Rightarrow> element \<Rightarrow> string list" where
  "add_suggestion suggestions elem =
     (let text = element_text elem in
      if text \<noteq> [] \<and> strip text \<noteq> [] \<and> strip text \<notin> set suggestions
      then suggestions @ [strip text]
      else suggestions)"

definition suggestion_elements :: "soup \<Rightarrow> element list" where
  "suggestion_elements sp =
     (let found_all =
            foldl (\<lambda>acc selector.
                     let found = select sp selector in
                     if found \<noteq> [] then acc @ found else acc)
                  [] suggestion_item_selectors
      in if found_all = [] then find_all_suggest sp else found_all)"

text \<open>
  \<open>StartpageParser.parse_suggestions\<close>: the JSON shape first, then the scan of the
  markup; an exception in the scan gives the empty list.
\<close>

definition parse_suggestions :: "'p env \<Rightarrow> string \<Rightarrow> string list" where
  "parse_suggestions ev response_text =
     (case json_loads ev response_text of
        Some (JArr (first # JArr entries # rest)) \<Rightarrow>
          take 10 (List.map_filter suggestion_of_json entries)
      | _ \<Rightarrow>
          (case html_soup ev response_text of
             None \<Rightarrow> []
           | Some sp \<Rightarrow> take 10 (foldl add_suggestion [] (suggestion_elements sp))))"

section \<open>Fixed surroundings for closed examples\<close>

text \<open>
  An environment in which every request object can be made and every request gets
  the outcome \<open>out\<close>, \<open>json.loads\<close>
  gives \<open>j\<close> and BeautifulSoup gives \<open>sp\<close> on every text, \<open>gzip\<close> and the
  decoding leave the bytes as they are, each category parser returns the page it is
  given, and no detector finds anything. \<open>fresh_world\<close> is a world at time \<open>t\<close> in
  which nothing has been sent.
\<close>

definition fixed_env :: "outcome \<Rightarrow> json option \<Rightarrow> soup option \<Rightarrow> string env" where
  "fixed_env out j sp =
     \<lparr>request_error = (\<lambda>r. None),
      urlopen = (\<lambda>w r. out),
      gzip_decompress = (\<lambda>b. Inr b),
      utf8_decode = (\<lambda>b. b),
      json_loads = (\<lambda>t. j),
      html_soup = (\<lambda>t. sp),
      category_parser = (\<lambda>search_type html. Inr html),
      extract_instant_answer_from_sxpr = (\<lambda>html q. None),
      extract_calculator_answer = (\<lambda>html. None),
      extract_time_date_answer = (\<lambda>html q. None),
      extract_weather_answer = (\<lambda>html q. None),
      extract_knowledge_panel_from_sxpr = (\<lambda>html. None),
      extract_generic_knowledge_panel = (\<lambda>html. None)\<rparr>"

definition fresh_world :: "rat \<Rightarrow> world" where
  "fresh_world t = \<lparr>clock = t, sent = []\<rparr>"

section \<open>Facts about strings\<close>

lemma rstrip_Nil: "rstrip [] = []"
  by (simp add: rstrip_def)

lemma strip_Nil: "strip [] = []"
  by (simp add: strip_def lstrip_def rstrip_def)

lemma lstrip_hd: "lstrip s \<noteq> [] \<Longrightarrow> \<not> isspace (hd (lstrip s))"
  unfolding lstrip_def by (rule hd_dropWhile)

lemma rstrip_last: "rstrip s \<noteq> [] \<Longrightarrow> \<not> isspace (last (rstrip s))"
proof -
  assume a: "rstrip s \<noteq> []"
  then have n: "dropWhile isspace (rev s) \<noteq> []"
    by (simp add: rstrip_def)
  have "last (rstrip s) = hd (dropWhile isspace (rev s))"
    using n by (simp add: rstrip_def last_rev)
  with n show ?thesis
    by (simp add: hd_dropWhile)
qed

lemma rstrip_id: "s \<noteq> [] \<Longrightarrow> \<not> isspace (last s) \<Longrightarrow> rstrip s = s"
proof -
  assume a: "s \<noteq> []" and b: "\<not> isspace (last s)"
  then have "\<not> isspace (hd (rev s))" and "rev s \<noteq> []"
    by (simp_all add: hd_rev)
  then have "dropWhile isspace (rev s) = rev s"
    by (cases "rev s") simp_all
  then show ?thesis
    by (simp add: rstrip_def)
qed

lemma lstrip_id: "s \<noteq> [] \<Longrightarrow> \<not> isspace (hd s) \<Longrightarrow> lstrip s = s"
  by (cases s) (simp_all add: lstrip_def)

lemma strip_id: "s \<noteq> [] \<Longrightarrow> \<not> isspace (hd s) \<Longrightarrow> \<not> isspace (last s) \<Longrightarrow> strip s = s"
  by (simp add: strip_def lstrip_id rstrip_id)

lemma rstrip_hd: "rstrip s \<noteq> [] \<Longrightarrow> hd (rstrip s) = hd s"
proof (induction s)
  case Nil
  then show ?case by (simp add: rstrip_def)
next
  case (Cons c cs)
  show ?case
  proof (cases "rstrip cs = []")
    case True
    then have "dropWhile isspace (rev cs) = []"
      by (simp add: rstrip_def)
    then have "dropWhile isspace (rev cs @ [c]) = dropWhile isspace [c]"
      by (simp add: dropWhile_append)
    with Cons.prems show ?thesis
      by (auto simp: rstrip_def split: if_splits)
  next
    case False
    then have n: "dropWhile isspace (rev cs) \<noteq> []"
      by (simp add: rstrip_def)
    then obtain x where x: "x \<in> set (rev cs)" "\<not> isspace x"
      by (auto simp: dropWhile_eq_Nil_conv)
    then have "dropWhile isspace (rev cs @ [c]) = dropWhile isspace (rev cs) @ [c]"
      by (simp add: dropWhile_append1)
    then have "rstrip (c # cs) = c # rstrip cs"
      by (simp add: rstrip_def)
    then show ?thesis by simp
  qed
qed

lemma strip_ends:
  assumes "strip s \<noteq> []"
  shows "\<not> isspace (hd (strip s))" and "\<not> isspace (last (strip s))"
proof -
  from assms have l: "lstrip s \<noteq> []"
    by (auto simp: strip_def rstrip_def)
  from assms have "hd (strip s) = hd (lstrip s)"
    unfolding strip_def by (rule rstrip_hd)
  with l show "\<not> isspace (hd (strip s))"
    by (simp add: lstrip_hd)
  from assms show "\<not> isspace (last (strip s))"
    unfolding strip_def by (rule rstrip_last)
qed

lemma strip_strip: "strip (strip s) = strip s"
proof (cases "strip s = []")
  case True
  then show ?thesis by (simp add: strip_Nil)
next
  case False
  then show ?thesis
    by (simp add: strip_id strip_ends)
qed

lemma dropWhile_snoc_keep: "\<not> P c \<Longrightarrow> dropWhile P (xs @ [c]) = dropWhile P xs @ [c]"
  by (induction xs) simp_all

lemma rstrip_Cons: "\<not> isspace c \<Longrightarrow> rstrip (c # cs) = c # rstrip cs"
  by (simp add: rstrip_def dropWhile_snoc_keep)

lemma rstrip_append_nonspace:
  "\<forall>c \<in> set p. \<not> isspace c \<Longrightarrow> rstrip (p @ s) = p @ rstrip s"
  by (induction p) (simp_all add: rstrip_Cons)

lemma not_space_slash: "\<not> isspace CHR ''/''"
  by (simp add: isspace_def whitespace_def)

lemma strip_slash: "strip (CHR ''/'' # s) = CHR ''/'' # rstrip s"
  by (simp add: strip_def lstrip_def not_space_slash rstrip_Cons)

lemma normalize_protocol_relative:
  "normalize_url (Some (''//'' @ s)) b = ''https://'' @ rstrip s"
  by (simp add: normalize_url_def strip_slash rstrip_Cons not_space_slash startswith_def)

lemma normalize_root_relative:
  assumes "startswith u ''/''" "\<not> startswith u ''//''"
  shows "normalize_url (Some u) STARTPAGE_BASE_URL = STARTPAGE_BASE_URL @ rstrip u"
proof -
  from assms(1) obtain s where u: "u = CHR ''/'' # s"
    by (cases u) (auto simp: startswith_def)
  have r: "rstrip u = CHR ''/'' # rstrip s"
    by (simp add: u rstrip_Cons not_space_slash)
  have e: "\<not> endswith STARTPAGE_BASE_URL ''/''"
    by (simp add: endswith_def STARTPAGE_BASE_URL_def)
  have n2: "\<not> startswith (CHR ''/'' # rstrip s) ''//''"
  proof (cases s)
    case Nil
    then show ?thesis by (simp add: startswith_def rstrip_def)
  next
    case (Cons c cs)
    with assms(2) u have c: "c \<noteq> CHR ''/''" by (simp add: startswith_def)
    show ?thesis
    proof (cases "rstrip s = []")
      case True then show ?thesis by (simp add: startswith_def)
    next
      case False
      then have "hd (rstrip s) = c" using rstrip_hd[of s] Cons by simp
      with False c show ?thesis by (cases "rstrip s") (auto simp: startswith_def)
    qed
  qed
  show ?thesis
    using e n2 by (simp add: normalize_url_def u strip_slash rstrip_Cons not_space_slash Let_def) (simp add: startswith_def)
qed

lemma normalize_absolute:
  assumes "v \<noteq> []" "\<not> isspace (hd v)" "\<not> startswith v ''/''"
  shows "normalize_url (Some v) b = rstrip v"
proof -
  from assms(1) obtain c cs where v: "v = c # cs"
    by (cases v) auto
  have c: "\<not> isspace c" "c \<noteq> CHR ''/''"
    using assms(2,3) by (auto simp: v startswith_def)
  have r: "rstrip v = c # rstrip cs"
    using c(1) by (simp add: v rstrip_Cons)
  have l: "lstrip v = v"
    using assms(1,2) by (rule lstrip_id)
  show ?thesis
    using c(2) by (simp add: normalize_url_def strip_def l r Let_def) (simp add: v startswith_def)
qed

lemma normalize_fixed:
  assumes "r \<noteq> []" "\<not> isspace (hd r)" "\<not> isspace (last r)" "\<not> startswith r ''/''"
  shows "normalize_url (Some r) b = r"
proof -
  have "strip r = r" using assms by (simp add: strip_id)
  moreover have "\<not> startswith r ''//''"
    using assms(4) by (cases r) (auto simp: startswith_def)
  ultimately show ?thesis using assms by (simp add: normalize_url_def)
qed

lemma normalize_idem:
  "normalize_url (Some (normalize_url u STARTPAGE_BASE_URL)) STARTPAGE_BASE_URL
     = normalize_url u STARTPAGE_BASE_URL"
proof (cases u)
  case None
  then show ?thesis by (simp add: normalize_url_def)
next
  case (Some u0)
  show ?thesis
  proof (cases "strip u0 = []")
    case True
    then show ?thesis by (simp add: Some normalize_url_def startswith_def)
  next
    case False
    define t where "t = strip u0"
    have t: "t \<noteq> []" "\<not> isspace (hd t)" "\<not> isspace (last t)"
      using False strip_ends[of u0] by (simp_all add: t_def)
    have u0: "u0 \<noteq> []" using False by (auto simp: strip_Nil)
    have e: "\<not> endswith STARTPAGE_BASE_URL ''/''"
      by (simp add: endswith_def STARTPAGE_BASE_URL_def)
    consider (a) "startswith t ''//''" | (b) "\<not> startswith t ''//''" "startswith t ''/''"
      | (c) "\<not> startswith t ''//''" "\<not> startswith t ''/''" by blast
    then show ?thesis
    proof cases
      case a
      then have r: "normalize_url u STARTPAGE_BASE_URL = ''https:'' @ t"
        using u0 by (simp add: Some normalize_url_def t_def[symmetric])
      have "normalize_url (Some (''https:'' @ t)) STARTPAGE_BASE_URL = ''https:'' @ t"
        by (rule normalize_fixed) (use t in \<open>simp_all add: isspace_def whitespace_def startswith_def\<close>)
      with r show ?thesis by simp
    next
      case b
      then have r: "normalize_url u STARTPAGE_BASE_URL = STARTPAGE_BASE_URL @ t"
        using u0 e by (simp add: Some normalize_url_def t_def[symmetric])
      have "normalize_url (Some (STARTPAGE_BASE_URL @ t)) STARTPAGE_BASE_URL = STARTPAGE_BASE_URL @ t"
        by (rule normalize_fixed)
          (use t in \<open>simp_all add: STARTPAGE_BASE_URL_def isspace_def whitespace_def startswith_def\<close>)
      with r show ?thesis by simp
    next
      case c
      then have r: "normalize_url u STARTPAGE_BASE_URL = t"
        using u0 by (simp add: Some normalize_url_def t_def[symmetric])
      have "normalize_url (Some t) STARTPAGE_BASE_URL = t"
        by (rule normalize_fixed) (use t c in simp_all)
      with r show ?thesis by simp
    qed
  qed
qed


lemma strip_eq_Nil_iff: "strip s = [] \<longleftrightarrow> (\<forall>c \<in> set s. isspace c)"
proof
  assume a: "strip s = []"
  show "\<forall>c \<in> set s. isspace c"
  proof (rule ccontr)
    assume "\<not> (\<forall>c \<in> set s. isspace c)"
    then have n: "lstrip s \<noteq> []"
      by (auto simp: lstrip_def dropWhile_eq_Nil_conv)
    then have "\<not> isspace (hd (lstrip s))"
      by (rule lstrip_hd)
    with n have "\<exists>x \<in> set (rev (lstrip s)). \<not> isspace x"
      by (metis hd_in_set set_rev)
    then have "dropWhile isspace (rev (lstrip s)) \<noteq> []"
      by (auto simp: dropWhile_eq_Nil_conv)
    with a show False
      by (simp add: strip_def rstrip_def)
  qed
next
  assume "\<forall>c \<in> set s. isspace c"
  then have "lstrip s = []"
    by (simp add: lstrip_def)
  then show "strip s = []"
    by (simp add: strip_def rstrip_def)
qed

lemma startswith_iff: "startswith s p \<longleftrightarrow> (\<exists>suf. s = p @ suf)"
  unfolding startswith_def
  by (metis append_eq_conv_conj append_take_drop_id)

lemma py_in_iff: "py_in sub s \<longleftrightarrow> (\<exists>pre suf. s = pre @ sub @ suf)"
proof (induction s)
  case Nil
  then show ?case by auto
next
  case (Cons c cs)
  show ?case
  proof
    assume "py_in sub (c # cs)"
    then consider "startswith (c # cs) sub" | "py_in sub cs" by auto
    then show "\<exists>pre suf. c # cs = pre @ sub @ suf"
    proof cases
      case 1
      then obtain suf where "c # cs = sub @ suf" by (auto simp: startswith_iff)
      then have "c # cs = [] @ sub @ suf" by simp
      then show ?thesis by blast
    next
      case 2
      with Cons.IH obtain pre suf where "cs = pre @ sub @ suf" by blast
      then have "c # cs = (c # pre) @ sub @ suf" by simp
      then show ?thesis by blast
    qed
  next
    assume "\<exists>pre suf. c # cs = pre @ sub @ suf"
    then obtain pre suf where e: "c # cs = pre @ sub @ suf" by blast
    show "py_in sub (c # cs)"
    proof (cases pre)
      case Nil
      with e have "startswith (c # cs) sub" by (auto simp: startswith_iff)
      then show ?thesis by simp
    next
      case (Cons d ds)
      with e have "cs = ds @ sub @ suf" by simp
      with Cons.IH have "py_in sub cs" by blast
      then show ?thesis by simp
    qed
  qed
qed

text \<open>
  C9, as amended. \<open>_normalize_url\<close> strips surrounding whitespace before it looks at
  the URL. So for every \<open>s\<close> the URL \<open>//s\<close> becomes \<open>https://\<close> followed by \<open>s\<close>
  without its trailing whitespace; a URL that begins with a single \<open>/\<close> is appended to
  the base origin without its trailing whitespace; a URL that begins with neither
  whitespace nor \<open>/\<close> (an absolute URL, such as one that begins with \<open>https://\<close>)
  is returned without its trailing whitespace, so unchanged when it has none; and
  normalizing twice gives the same as normalizing once, for every input including
  \<open>None\<close>.
\<close>

theorem normalize_url_rules:
  "normalize_url (Some (''//'' @ s)) STARTPAGE_BASE_URL = ''https://'' @ rstrip s
   \<and> (startswith u ''/'' \<and> \<not> startswith u ''//''
        \<longrightarrow> normalize_url (Some u) STARTPAGE_BASE_URL = STARTPAGE_BASE_URL @ rstrip u)
   \<and> (v \<noteq> [] \<and> \<not> isspace (hd v) \<and> \<not> startswith v ''/''
        \<longrightarrow> normalize_url (Some v) STARTPAGE_BASE_URL = rstrip v)
   \<and> normalize_url (Some (normalize_url x STARTPAGE_BASE_URL)) STARTPAGE_BASE_URL
        = normalize_url x STARTPAGE_BASE_URL"
  using normalize_protocol_relative normalize_root_relative normalize_absolute normalize_idem
  by blast

text \<open>
  The three examples of the specification: \<open>//x.com/a\<close>, \<open>/a/b\<close> and
  \<open>https://x.com/a\<close>.
\<close>

theorem normalize_url_rules_witness:
  "startswith ''/a/b'' ''/'' \<and> \<not> startswith ''/a/b'' ''//''
   \<and> \<not> isspace CHR ''h'' \<and> \<not> startswith ''https://x.com/a'' ''/''
   \<and> normalize_url (Some ''//x.com/a'') STARTPAGE_BASE_URL = ''https://x.com/a''
   \<and> normalize_url (Some ''/a/b'') STARTPAGE_BASE_URL = ''https://www.startpage.com/a/b''
   \<and> normalize_url (Some ''https://x.com/a'') STARTPAGE_BASE_URL = ''https://x.com/a''"
  using normalize_url_rules [of "''x.com/a''" "''/a/b''" "''https://x.com/a''" None]
  by (simp add: startswith_def rstrip_def isspace_def whitespace_def STARTPAGE_BASE_URL_def)

text \<open>
  C9 as stated fails for a string that ends in whitespace: for \<open>s = "x.com/a "\<close> the
  result of normalizing \<open>//s\<close> is \<open>https://x.com/a\<close>, not \<open>https://\<close> followed by
  \<open>s\<close>.
\<close>

theorem normalize_url_trailing_space:
  "normalize_url (Some (''//'' @ ''x.com/a '')) STARTPAGE_BASE_URL \<noteq> ''https://'' @ ''x.com/a ''"
  by (simp add: normalize_url_def strip_def lstrip_def rstrip_def isspace_def whitespace_def startswith_def)

section \<open>Result parsing dispatch\<close>

text \<open>
  C7. \<open>parse_search_results\<close> raises a \<open>StartpageParseError\<close> whenever the page is
  empty, and whenever the search type is not one of web, images, videos, news and
  places, whatever the page is. The message is the fixed text about empty content in
  the first case and otherwise wraps the description of the cause (the class name and
  the text of the unknown-type error); it is built from the search type alone and
  contains nothing of the page.
\<close>

theorem parse_search_results_rejects:
  "html = [] \<or> search_type \<notin> set known_search_types \<Longrightarrow>
   parse_search_results ev html search_type =
     Inl (StartpageParseError
       (if html = [] then ''Cannot parse empty HTML content.''
        else parse_failure_message search_type ''StartpageParseError''
               (''Unknown search type for parsing: '' @ search_type)))"
  by (auto simp: parse_search_results_def)

text \<open>The two examples of the specification: an empty page, and the search type \<open>bogus\<close>.\<close>

theorem parse_search_results_rejects_witness:
  "parse_search_results (fixed_env (OtherError []) None None) [] ''web''
     = Inl (StartpageParseError ''Cannot parse empty HTML content.'')
   \<and> ''bogus'' \<notin> set known_search_types
   \<and> parse_search_results (fixed_env (OtherError []) None None) ''<html/>'' ''bogus''
     = Inl (StartpageParseError
         (''Failed to parse '' @ [CHR 0x27] @ ''bogus'' @ [CHR 0x27]
            @ '' results due to StartpageParseError: Unknown search type for parsing: bogus''))"
  using parse_search_results_rejects [of "[]" "''web''" "fixed_env (OtherError []) None None"]
    parse_search_results_rejects [of "''<html/>''" "''bogus''" "fixed_env (OtherError []) None None"]
  by (simp add: known_search_types_def parse_failure_message_def)

section \<open>Instant answers\<close>

text \<open>
  C10. For every query that is empty or consists of whitespace only,
  \<open>instant_answers\<close> returns the bundle with no instant answer and no knowledge panel.
  It does not raise, and the client and the world come back as they were: no request
  is made.
\<close>

theorem instant_answers_blank_query:
  "\<forall>ch \<in> set q. isspace ch \<Longrightarrow>
   instant_answers ev c w q lang kw
     = (Inr \<lparr>instant_answer = None, knowledge_panel = None\<rparr>, c, w)"
  by (simp add: instant_answers_def strip_eq_Nil_iff)

text \<open>A query of two spaces, on a newly made client.\<close>

theorem instant_answers_blank_query_witness:
  "isspace CHR '' ''
   \<and> instant_answers (fixed_env (OtherError []) None None) (init_client None 30 1) (fresh_world 0)
        ''  '' ''en'' []
     = (Inr \<lparr>instant_answer = None, knowledge_panel = None\<rparr>, init_client None 30 1, fresh_world 0)"
  using instant_answers_blank_query [of "''  ''" "fixed_env (OtherError []) None None"
      "init_client None 30 1" "fresh_world 0" "''en''" "[]"]
  by (simp add: isspace_def whitespace_def)

text \<open>
  With a query that is not blank, \<open>instant_answers\<close> makes one request and, when it
  succeeds, returns what \<open>assemble_bundle\<close> makes of the two findings.
\<close>

lemma instant_answers_assembles:
  assumes "strip q \<noteq> []"
    and "make_request ev c w SEARCH_URL
           (Some (dict_update
              [(''query'', PStr (strip q)), (''cat'', PStr ''web''),
               (''cmd'', PStr ''process_search''),
               (''language'', table_get LANGUAGE_CODES (PStr lang) (PStr lang)),
               (''lui'', table_get LANGUAGE_CODES (PStr lang) (PStr lang))] kw)) None
         = (Inr html_content, c', w')"
  shows "instant_answers ev c w q lang kw
     = (Inr (assemble_bundle (detect_instant_answer ev html_content q)
               (detect_knowledge_panel ev html_content)), c', w')"
  using assms by (simp add: instant_answers_def Let_def)

text \<open>
  The last step of \<open>instant_answers\<close> on two findings of which one text occurs in
  the other.
\<close>

lemma assemble_bundle_dedup:
  "a \<noteq> [] \<Longrightarrow> description p \<noteq> [] \<Longrightarrow>
   py_in a (description p) \<or> py_in (description p) a \<Longrightarrow>
   assemble_bundle (Some a) (Some p) =
     (if title p \<noteq> [] then \<lparr>instant_answer = None, knowledge_panel = Some p\<rparr>
      else \<lparr>instant_answer = Some a, knowledge_panel = None\<rparr>)"
  by (simp add: assemble_bundle_def)

section \<open>Transport\<close>

lemma respect_delay_sent: "respect_delay c w = (c1, w1) \<Longrightarrow> sent w1 = sent w"
  by (auto simp: respect_delay_def Let_def split: if_splits)

lemma str_int_429: "str_int 429 = ''429''"
  by (simp add: str_int_def str_nat.simps)

text \<open>
  What \<open>_make_request\<close> returns, by cases on what its surroundings do.
\<close>

lemma make_request_cases:
  assumes "respect_delay c w = (c1, w1)"
    and "req = prepare_request c1 url data headers"
    and "w2 = w1\<lparr>sent := sent w @ [req]\<rparr>"
  shows "make_request ev c w url data headers =
     (case request_error ev req of
        Some msg \<Rightarrow>
          (Inl (StartpageError (''Request failed due to an unexpected error: '' @ msg)), c1, w1)
      | None \<Rightarrow>
          (case urlopen ev w1 req of
             Response content encoding \<Rightarrow>
               (if encoding = Some ''gzip'' then
                  (case gzip_decompress ev content of
                     Inl msg \<Rightarrow>
                       (Inl (StartpageError
                          (''Request failed due to an unexpected error: '' @ msg)), c1, w2)
                   | Inr raw \<Rightarrow> (Inr (utf8_decode ev raw), c1, w2))
                else (Inr (utf8_decode ev content), c1, w2))
           | HTTPError code reason \<Rightarrow>
               (if code = 429 then
                  (Inl (StartpageRateLimitError
                     (''Rate limit exceeded: '' @ str_int code @ '' '' @ reason)), c1, w2)
                else
                  (Inl (StartpageHTTPError code
                     (''HTTP error: '' @ str_int code @ '' '' @ reason)), c1, w2))
           | URLError reason \<Rightarrow> (Inl (StartpageError (''Network error: '' @ reason)), c1, w2)
           | OtherError msg \<Rightarrow>
               (Inl (StartpageError
                  (''Request failed due to an unexpected error: '' @ msg)), c1, w2)))"
proof -
  have s: "sent w1 = sent w"
    using assms(1) by (rule respect_delay_sent)
  show ?thesis
    unfolding make_request_def assms(1) assms(2) assms(3) s [symmetric]
    by (simp add: Let_def split: option.splits outcome.splits sum.splits)
qed

text \<open>
  C6. \<open>_make_request\<close> turns every failure into exactly one error, by what fails.
  A response with the HTTP status 429 (an \<open>HTTPError\<close> with that code) gives
  \<open>StartpageRateLimitError\<close>, not \<open>StartpageHTTPError\<close>; a response with any other
  HTTP error status gives \<open>StartpageHTTPError\<close> carrying that status; a failed
  connection, name lookup or timeout (a \<open>URLError\<close>) gives the \<open>StartpageError\<close> for
  network errors; anything else gives the \<open>StartpageError\<close> for unexpected failures,
  whether it is raised while the request object is made (then nothing is sent), by
  opening the request, or by \<open>gzip.decompress\<close> on a response that was received. A
  call that meets none of these returns the decoded body. So a failure is always one of
  the three kinds, and never an HTTP error for the status 429. Nothing is sent again:
  the log of requests grows by this one request, or by none when the request object
  could not be made.
\<close>

theorem make_request_failure_mapping:
  assumes "respect_delay c w = (c1, w1)"
    and "req = prepare_request c1 url data headers"
    and "w2 = w1\<lparr>sent := sent w @ [req]\<rparr>"
  shows "(request_error ev req = Some msg \<longrightarrow>
            make_request ev c w url data headers
              = (Inl (StartpageError
                   (''Request failed due to an unexpected error: '' @ msg)), c1, w1))
       \<and> (request_error ev req = None \<and> urlopen ev w1 req = HTTPError 429 reason \<longrightarrow>
            make_request ev c w url data headers
              = (Inl (StartpageRateLimitError (''Rate limit exceeded: 429 '' @ reason)), c1, w2))
       \<and> (request_error ev req = None \<and> urlopen ev w1 req = HTTPError code reason
            \<and> code \<noteq> 429 \<longrightarrow>
            make_request ev c w url data headers
              = (Inl (StartpageHTTPError code
                   (''HTTP error: '' @ str_int code @ '' '' @ reason)), c1, w2))
       \<and> (request_error ev req = None \<and> urlopen ev w1 req = URLError reason \<longrightarrow>
            make_request ev c w url data headers
              = (Inl (StartpageError (''Network error: '' @ reason)), c1, w2))
       \<and> (request_error ev req = None \<and> urlopen ev w1 req = OtherError reason \<longrightarrow>
            make_request ev c w url data headers
              = (Inl (StartpageError
                   (''Request failed due to an unexpected error: '' @ reason)), c1, w2))
       \<and> (request_error ev req = None \<and> urlopen ev w1 req = Response content (Some ''gzip'')
            \<and> gzip_decompress ev content = Inl msg \<longrightarrow>
            make_request ev c w url data headers
              = (Inl (StartpageError
                   (''Request failed due to an unexpected error: '' @ msg)), c1, w2))
       \<and> (request_error ev req = None \<and> urlopen ev w1 req = Response content (Some ''gzip'')
            \<and> gzip_decompress ev content = Inr raw \<longrightarrow>
            make_request ev c w url data headers = (Inr (utf8_decode ev raw), c1, w2))
       \<and> (request_error ev req = None \<and> urlopen ev w1 req = Response content encoding
            \<and> encoding \<noteq> Some ''gzip'' \<longrightarrow>
            make_request ev c w url data headers = (Inr (utf8_decode ev content), c1, w2))
       \<and> (\<forall>e. fst (make_request ev c w url data headers) = Inl e \<longrightarrow>
              (\<exists>m. e = StartpageRateLimitError m)
            \<or> (\<exists>k m. e = StartpageHTTPError k m \<and> k \<noteq> 429)
            \<or> (\<exists>m. e = StartpageError m))
       \<and> sent (snd (snd (make_request ev c w url data headers)))
            = sent w @ (if request_error ev req = None then [req] else [])"
proof -
  note m = make_request_cases [OF assms, of ev]
  have s: "sent w1 = sent w"
    using assms(1) by (rule respect_delay_sent)
  have 1: "request_error ev req = Some msg \<longrightarrow>
            make_request ev c w url data headers
              = (Inl (StartpageError
                   (''Request failed due to an unexpected error: '' @ msg)), c1, w1)"
    by (simp add: m)
  have 2: "request_error ev req = None \<and> urlopen ev w1 req = HTTPError 429 reason \<longrightarrow>
            make_request ev c w url data headers
              = (Inl (StartpageRateLimitError (''Rate limit exceeded: 429 '' @ reason)), c1, w2)"
    by (simp add: m str_int_429)
  have 3: "request_error ev req = None \<and> urlopen ev w1 req = HTTPError code reason
            \<and> code \<noteq> 429 \<longrightarrow>
            make_request ev c w url data headers
              = (Inl (StartpageHTTPError code
                   (''HTTP error: '' @ str_int code @ '' '' @ reason)), c1, w2)"
    by (simp add: m)
  have 4: "request_error ev req = None \<and> urlopen ev w1 req = URLError reason \<longrightarrow>
            make_request ev c w url data headers
              = (Inl (StartpageError (''Network error: '' @ reason)), c1, w2)"
    by (simp add: m)
  have 5: "request_error ev req = None \<and> urlopen ev w1 req = OtherError reason \<longrightarrow>
            make_request ev c w url data headers
              = (Inl (StartpageError
                   (''Request failed due to an unexpected error: '' @ reason)), c1, w2)"
    by (simp add: m)
  have 6: "request_error ev req = None \<and> urlopen ev w1 req = Response content (Some ''gzip'')
            \<and> gzip_decompress ev content = Inl msg \<longrightarrow>
            make_request ev c w url data headers
              = (Inl (StartpageError
                   (''Request failed due to an unexpected error: '' @ msg)), c1, w2)"
    by (simp add: m)
  have 7: "request_error ev req = None \<and> urlopen ev w1 req = Response content (Some ''gzip'')
            \<and> gzip_decompress ev content = Inr raw \<longrightarrow>
            make_request ev c w url data headers = (Inr (utf8_decode ev raw), c1, w2)"
    by (simp add: m)
  have 8: "request_error ev req = None \<and> urlopen ev w1 req = Response content encoding
            \<and> encoding \<noteq> Some ''gzip'' \<longrightarrow>
            make_request ev c w url data headers = (Inr (utf8_decode ev content), c1, w2)"
    by (simp add: m)
  have 9: "\<forall>e. fst (make_request ev c w url data headers) = Inl e \<longrightarrow>
              (\<exists>m. e = StartpageRateLimitError m)
            \<or> (\<exists>k m. e = StartpageHTTPError k m \<and> k \<noteq> 429)
            \<or> (\<exists>m. e = StartpageError m)"
    unfolding m
    by (simp split: option.splits outcome.splits sum.splits if_splits)
  have 10: "sent (snd (snd (make_request ev c w url data headers)))
            = sent w @ (if request_error ev req = None then [req] else [])"
    unfolding m
    by (simp add: assms(3) s split: option.splits outcome.splits sum.splits)
  from 1 2 3 4 5 6 7 8 9 10 show ?thesis
    by (intro conjI)
qed

text \<open>
  On a newly made client whose delay has already passed: the statuses 429 and 500 of
  the specification, a timeout, another failure of opening the request, a response
  marked \<open>gzip\<close> that does not decompress, and a URL for which no request object can
  be made.
\<close>

theorem make_request_failure_mapping_witness:
  "make_request (fixed_env (HTTPError 429 ''Too Many Requests'') None None)
      (init_client None 30 1) (fresh_world 5) SEARCH_URL None None
     = (Inl (StartpageRateLimitError ''Rate limit exceeded: 429 Too Many Requests''),
        (init_client None 30 1)\<lparr>last_request_time := 5\<rparr>,
        \<lparr>clock = 5, sent = [prepare_request (init_client None 30 1) SEARCH_URL None None]\<rparr>)
   \<and> make_request (fixed_env (HTTPError 500 ''Internal Server Error'') None None)
      (init_client None 30 1) (fresh_world 5) SEARCH_URL None None
     = (Inl (StartpageHTTPError 500 ''HTTP error: 500 Internal Server Error''),
        (init_client None 30 1)\<lparr>last_request_time := 5\<rparr>,
        \<lparr>clock = 5, sent = [prepare_request (init_client None 30 1) SEARCH_URL None None]\<rparr>)
   \<and> make_request (fixed_env (URLError ''timed out'') None None)
      (init_client None 30 1) (fresh_world 5) SEARCH_URL None None
     = (Inl (StartpageError ''Network error: timed out''),
        (init_client None 30 1)\<lparr>last_request_time := 5\<rparr>,
        \<lparr>clock = 5, sent = [prepare_request (init_client None 30 1) SEARCH_URL None None]\<rparr>)
   \<and> make_request (fixed_env (OtherError ''boom'') None None)
      (init_client None 30 1) (fresh_world 5) SEARCH_URL None None
     = (Inl (StartpageError ''Request failed due to an unexpected error: boom''),
        (init_client None 30 1)\<lparr>last_request_time := 5\<rparr>,
        \<lparr>clock = 5, sent = [prepare_request (init_client None 30 1) SEARCH_URL None None]\<rparr>)
   \<and> make_request
        ((fixed_env (Response ''junk'' (Some ''gzip'')) None None)
           \<lparr>gzip_decompress := (\<lambda>b. Inl ''Not a gzipped file'')\<rparr>)
      (init_client None 30 1) (fresh_world 5) SEARCH_URL None None
     = (Inl (StartpageError ''Request failed due to an unexpected error: Not a gzipped file''),
        (init_client None 30 1)\<lparr>last_request_time := 5\<rparr>,
        \<lparr>clock = 5, sent = [prepare_request (init_client None 30 1) SEARCH_URL None None]\<rparr>)
   \<and> make_request
        ((fixed_env (OtherError []) None None)
           \<lparr>request_error := (\<lambda>r. Some ''unknown url type'')\<rparr>)
      (init_client None 30 1) (fresh_world 5) ''notaurl'' None None
     = (Inl (StartpageError ''Request failed due to an unexpected error: unknown url type''),
        (init_client None 30 1)\<lparr>last_request_time := 5\<rparr>,
        \<lparr>clock = 5, sent = []\<rparr>)"
proof -
  let ?c = "init_client None 30 1" and ?w = "fresh_world 5"
  let ?c1 = "?c\<lparr>last_request_time := 5\<rparr>"
  let ?req = "prepare_request ?c1 SEARCH_URL None None"
  let ?w2 = "?w\<lparr>sent := sent ?w @ [?req]\<rparr>"
  have d: "respect_delay ?c ?w = (?c1, ?w)"
    by (simp add: respect_delay_def init_client_def fresh_world_def Let_def)
  have p: "?req = prepare_request ?c SEARCH_URL None None"
    by (simp add: prepare_request_def init_client_def)
  have w2: "?w2 = \<lparr>clock = 5, sent = [prepare_request ?c SEARCH_URL None None]\<rparr>"
    by (simp add: fresh_world_def p)
  have w: "?w = \<lparr>clock = 5, sent = []\<rparr>"
    by (simp add: fresh_world_def)
  have s500: "str_int 500 = ''500''"
    by (simp add: str_int_def str_nat.simps)
  have A1: "make_request (fixed_env (HTTPError 429 ''Too Many Requests'') None None)
      ?c ?w SEARCH_URL None None
     = (Inl (StartpageRateLimitError ''Rate limit exceeded: 429 Too Many Requests''), ?c1, ?w2)"
    using make_request_failure_mapping [where url=SEARCH_URL and data=None and headers=None
          and ev="fixed_env (HTTPError 429 ''Too Many Requests'') None None"
          and reason="''Too Many Requests''" and code=0, OF d refl refl]
    by (simp add: fixed_env_def)
  have A2: "make_request (fixed_env (HTTPError 500 ''Internal Server Error'') None None)
      ?c ?w SEARCH_URL None None
     = (Inl (StartpageHTTPError 500 ''HTTP error: 500 Internal Server Error''), ?c1, ?w2)"
    using make_request_failure_mapping [where url=SEARCH_URL and data=None and headers=None
          and ev="fixed_env (HTTPError 500 ''Internal Server Error'') None None"
          and reason="''Internal Server Error''" and code=500, OF d refl refl]
    by (simp add: fixed_env_def s500)
  have A3: "make_request (fixed_env (URLError ''timed out'') None None)
      ?c ?w SEARCH_URL None None
     = (Inl (StartpageError ''Network error: timed out''), ?c1, ?w2)"
    using make_request_failure_mapping [where url=SEARCH_URL and data=None and headers=None
          and ev="fixed_env (URLError ''timed out'') None None"
          and reason="''timed out''" and code=0, OF d refl refl]
    by (simp add: fixed_env_def)
  have A4: "make_request (fixed_env (OtherError ''boom'') None None)
      ?c ?w SEARCH_URL None None
     = (Inl (StartpageError ''Request failed due to an unexpected error: boom''), ?c1, ?w2)"
    using make_request_failure_mapping [where url=SEARCH_URL and data=None and headers=None
          and ev="fixed_env (OtherError ''boom'') None None"
          and reason="''boom''" and code=0, OF d refl refl]
    by (simp add: fixed_env_def)
  have A5: "make_request
        ((fixed_env (Response ''junk'' (Some ''gzip'')) None None)
           \<lparr>gzip_decompress := (\<lambda>b. Inl ''Not a gzipped file'')\<rparr>)
      ?c ?w SEARCH_URL None None
     = (Inl (StartpageError ''Request failed due to an unexpected error: Not a gzipped file''),
        ?c1, ?w2)"
    using make_request_failure_mapping [where url=SEARCH_URL and data=None and headers=None
          and ev="(fixed_env (Response ''junk'' (Some ''gzip'')) None None)
                    \<lparr>gzip_decompress := (\<lambda>b. Inl ''Not a gzipped file'')\<rparr>"
          and content="''junk''" and msg="''Not a gzipped file''" and code=0, OF d refl refl]
    by (simp add: fixed_env_def)
  have A6: "make_request
        ((fixed_env (OtherError []) None None)
           \<lparr>request_error := (\<lambda>r. Some ''unknown url type'')\<rparr>)
      ?c ?w ''notaurl'' None None
     = (Inl (StartpageError ''Request failed due to an unexpected error: unknown url type''),
        ?c1, ?w)"
    using make_request_failure_mapping [where url="''notaurl''" and data=None and headers=None
          and ev="(fixed_env (OtherError []) None None)
                    \<lparr>request_error := (\<lambda>r. Some ''unknown url type'')\<rparr>"
          and msg="''unknown url type''" and code=0, OF d refl refl]
    by (simp add: fixed_env_def)
  show ?thesis
    unfolding A1 A2 A3 A4 A5 A6 w2
    by (simp add: fresh_world_def)
qed

section \<open>Request builder\<close>

lemma map_of_dict_set: "map_of (dict_set k v d) = (map_of d)(k \<mapsto> v)"
  by (induction d) (auto simp: fun_eq_iff)

lemma map_of_dict_update:
  "map_of (dict_update d e) k = (case map_of (rev e) k of Some v \<Rightarrow> Some v | None \<Rightarrow> map_of d k)"
proof (induction e arbitrary: d)
  case Nil
  then show ?case by (simp add: dict_update_def)
next
  case (Cons kv e)
  obtain k' v' where kv: "kv = (k', v')" by (cases kv)
  have "dict_update d (kv # e) = dict_update (dict_set k' v' d) e"
    by (simp add: dict_update_def kv)
  then show ?case
    using Cons.IH [of "dict_set k' v' d"]
    by (auto simp: kv map_of_dict_set map_add_def split: option.splits)
qed

lemma map_of_dict_update_other:
  "k \<notin> set (dict_keys e) \<Longrightarrow> map_of (dict_update d e) k = map_of d k"
proof -
  assume "k \<notin> set (dict_keys e)"
  then have "map_of (rev e) k = None"
    by (simp add: dict_keys_def map_of_eq_None_iff)
  then show ?thesis
    by (simp add: map_of_dict_update)
qed

lemma map_of_cond_set:
  "map_of (if b then dict_set k v d else d) k' = (if b \<and> k' = k then Some v else map_of d k')"
  by (simp add: map_of_dict_set)

lemma map_of_cond_set2:
  "map_of (if b then dict_set k1 v1 (dict_set k2 v2 d) else d) k' =
     (if b \<and> k' = k1 then Some v1 else if b \<and> k' = k2 then Some v2 else map_of d k')"
  by (simp add: map_of_dict_set)

lemmas map_of_params = map_of_cond_set map_of_cond_set2 map_of_dict_set

lemma build_blank: "strip (query a) = [] \<Longrightarrow> build_search_params a = Inl (ValueError ''Query cannot be empty.'')"
  by (simp add: build_search_params_def)

lemma build_base:
  assumes "strip (query a) \<noteq> []"
  shows "\<exists>base. build_search_params a = Inr (dict_update base (kwargs a))
           \<and> map_of base ''query'' = Some (PStr (strip (query a)))
           \<and> map_of base ''startat'' = Some (PStr (str_int ((page a - 1) * results_per_page a)))"
  unfolding build_search_params_def Let_def
  apply (simp only: assms if_False)
  apply (intro exI conjI, rule refl)
   apply (simp_all add: map_of_params split del: if_split)
  done


text \<open>
  The value of a key that the extras do not carry is its value in the parameters
  computed before the extras are merged.
\<close>

lemma build_value:
  assumes "build_search_params a = Inr params" and "k \<notin> set (dict_keys (kwargs a))"
  shows "map_of params k =
    map_of
      (let params =
              [(''query'', PStr (strip (query a))),
               (''cat'', category a),
               (''cmd'', PStr ''process_search''),
               (''language'', table_get LANGUAGE_CODES (PStr (language a)) (PStr (language a))),
               (''lui'', table_get LANGUAGE_CODES (PStr (language a)) (PStr (language a))),
               (''pl'', table_get REGION_CODES (PStr (region a)) (PStr (region a))),
               (''startat'', PStr (str_int ((page a - 1) * results_per_page a)))];
            params =
              (if truthy (safe_search a) \<and> category a \<notin> set [PStr ''news'', PStr ''places'']
               then dict_set ''ff'' (table_get SAFE_SEARCH_LEVELS (safe_search a) (PStr ''0'')) params
               else params);
            params =
              (if category a = PStr ''web''
               then dict_set ''num'' (PStr (str_int (results_per_page a))) params
               else params);
            params =
              (if truthy (time_filter a) \<and> time_filter a \<noteq> PStr ''any''
                  \<and> category a \<in> set [PStr ''web'', PStr ''video'', PStr ''news'']
               then dict_set ''with_date'' (table_get TIME_FILTERS (time_filter a) (time_filter a)) params
               else params);
            params =
              (if truthy (size_filter a) \<and> size_filter a \<noteq> PStr ''any''
                  \<and> category a = PStr ''images''
               then dict_set ''size'' (table_get IMAGE_SIZES (size_filter a) (size_filter a)) params
               else params);
            params =
              (if truthy (duration a) \<and> duration a \<noteq> PStr ''any''
                  \<and> category a = PStr ''video''
               then dict_set ''duration'' (table_get VIDEO_DURATIONS (duration a) (duration a)) params
               else params);
            params =
              (if latitude a \<noteq> PNone \<and> longitude a \<noteq> PNone \<and> category a = PStr ''places''
               then dict_set ''longitude'' (PStr (py_str (longitude a)))
                      (dict_set ''latitude'' (PStr (py_str (latitude a))) params)
               else params);
            params =
              (if radius a \<noteq> PNone \<and> category a = PStr ''places''
               then dict_set ''radius'' (PStr (py_str (radius a))) params
               else params)
        in params) k"
proof -
  have q: "strip (query a) \<noteq> []"
    using assms(1) by (auto simp: build_search_params_def)
  show ?thesis
    using assms(1) unfolding build_search_params_def Let_def
    apply (simp only: q if_False sum.inject)
    apply (erule subst)
    apply (simp only: map_of_dict_update_other [OF assms(2)])
    done
qed

lemma if_else_eq: "(\<not> b \<Longrightarrow> x = y) \<Longrightarrow> (if b then t else x) = (if b then t else y)"
  by simp

lemma build_size:
  assumes "build_search_params a = Inr params" and "''size'' \<notin> set (dict_keys (kwargs a))"
  shows "map_of params ''size'' =
     (if truthy (size_filter a) \<and> size_filter a \<noteq> PStr ''any'' \<and> category a = PStr ''images''
      then Some (table_get IMAGE_SIZES (size_filter a) (size_filter a)) else None)"
  unfolding build_value [OF assms] Let_def
  apply (simp add: map_of_params split del: if_split)
  apply (rule if_else_eq)
  apply (simp add: map_of_params split del: if_split)
  done

lemma build_duration:
  assumes "build_search_params a = Inr params" and "''duration'' \<notin> set (dict_keys (kwargs a))"
  shows "map_of params ''duration'' =
     (if truthy (duration a) \<and> duration a \<noteq> PStr ''any'' \<and> category a = PStr ''video''
      then Some (table_get VIDEO_DURATIONS (duration a) (duration a)) else None)"
  unfolding build_value [OF assms] Let_def
  apply (simp add: map_of_params split del: if_split)
  apply (rule if_else_eq)
  apply (simp add: map_of_params split del: if_split)
  done

lemma build_with_date:
  assumes "build_search_params a = Inr params" and "''with_date'' \<notin> set (dict_keys (kwargs a))"
  shows "map_of params ''with_date'' =
     (if truthy (time_filter a) \<and> time_filter a \<noteq> PStr ''any''
         \<and> category a \<in> set [PStr ''web'', PStr ''video'', PStr ''news'']
      then Some (table_get TIME_FILTERS (time_filter a) (time_filter a)) else None)"
  unfolding build_value [OF assms] Let_def
  apply (simp add: map_of_params split del: if_split)
  apply (rule if_else_eq)
  apply (simp add: map_of_params split del: if_split)
  done

lemma build_ff:
  assumes "build_search_params a = Inr params" and "''ff'' \<notin> set (dict_keys (kwargs a))"
  shows "map_of params ''ff'' =
     (if truthy (safe_search a) \<and> category a \<notin> set [PStr ''news'', PStr ''places'']
      then Some (table_get SAFE_SEARCH_LEVELS (safe_search a) (PStr ''0'')) else None)"
  unfolding build_value [OF assms] Let_def
  apply (simp add: map_of_params split del: if_split)
  apply (rule if_else_eq)
  apply (simp add: map_of_params split del: if_split)
  done

lemma build_latitude:
  assumes "build_search_params a = Inr params" and "''latitude'' \<notin> set (dict_keys (kwargs a))"
  shows "map_of params ''latitude'' =
     (if latitude a \<noteq> PNone \<and> longitude a \<noteq> PNone \<and> category a = PStr ''places''
      then Some (PStr (py_str (latitude a))) else None)"
  unfolding build_value [OF assms] Let_def
  apply (simp add: map_of_params split del: if_split)
  apply (rule if_else_eq)
  apply (simp add: map_of_params split del: if_split)
  done

lemma build_longitude:
  assumes "build_search_params a = Inr params" and "''longitude'' \<notin> set (dict_keys (kwargs a))"
  shows "map_of params ''longitude'' =
     (if latitude a \<noteq> PNone \<and> longitude a \<noteq> PNone \<and> category a = PStr ''places''
      then Some (PStr (py_str (longitude a))) else None)"
  unfolding build_value [OF assms] Let_def
  apply (simp add: map_of_params split del: if_split)
  apply (rule if_else_eq)
  apply (simp add: map_of_params split del: if_split)
  done

lemma build_radius:
  assumes "build_search_params a = Inr params" and "''radius'' \<notin> set (dict_keys (kwargs a))"
  shows "map_of params ''radius'' =
     (if radius a \<noteq> PNone \<and> category a = PStr ''places''
      then Some (PStr (py_str (radius a))) else None)"
  unfolding build_value [OF assms] Let_def
  apply (simp add: map_of_params split del: if_split)
  apply (rule if_else_eq)
  apply (simp add: map_of_params split del: if_split)
  done

lemma build_language:
  assumes "build_search_params a = Inr params" and "''language'' \<notin> set (dict_keys (kwargs a))"
  shows "map_of params ''language'' =
     Some (table_get LANGUAGE_CODES (PStr (language a)) (PStr (language a)))"
  unfolding build_value [OF assms] Let_def
  by (simp add: map_of_params split del: if_split)

lemma build_lui:
  assumes "build_search_params a = Inr params" and "''lui'' \<notin> set (dict_keys (kwargs a))"
  shows "map_of params ''lui'' =
     Some (table_get LANGUAGE_CODES (PStr (language a)) (PStr (language a)))"
  unfolding build_value [OF assms] Let_def
  by (simp add: map_of_params split del: if_split)

lemma build_pl:
  assumes "build_search_params a = Inr params" and "''pl'' \<notin> set (dict_keys (kwargs a))"
  shows "map_of params ''pl'' =
     Some (table_get REGION_CODES (PStr (region a)) (PStr (region a)))"
  unfolding build_value [OF assms] Let_def
  by (simp add: map_of_params split del: if_split)

lemma build_query:
  assumes "build_search_params a = Inr params" and "''query'' \<notin> set (dict_keys (kwargs a))"
  shows "map_of params ''query'' =
     Some (PStr (strip (query a)))"
  unfolding build_value [OF assms] Let_def
  by (simp add: map_of_params split del: if_split)

lemma build_startat:
  assumes "build_search_params a = Inr params" and "''startat'' \<notin> set (dict_keys (kwargs a))"
  shows "map_of params ''startat'' =
     Some (PStr (str_int ((page a - 1) * results_per_page a)))"
  unfolding build_value [OF assms] Let_def
  by (simp add: map_of_params split del: if_split)


lemma build_nonblank:
  "strip (query a) \<noteq> [] \<Longrightarrow> \<exists>params. build_search_params a = Inr params"
  by (simp add: build_search_params_def Let_def)

lemma strip_cats: "strip ''  cats  '' = ''cats''"
  by (simp add: strip_def lstrip_def rstrip_def isspace_def whitespace_def)

lemma str_int_10: "str_int 10 = ''10''"
  by (simp add: str_int_def str_nat.simps)

text \<open>
  C5. With a query that is empty after trimming the builder fails with
  \<open>ValueError\<close>, whatever the other arguments are. With any other query it succeeds:
  it computes the parameter set with the trimmed query under \<open>query\<close> and
  \<open>(page - 1) * results_per_page\<close> under \<open>startat\<close>, and merges the extras into it
  last; so the result holds the trimmed query and that offset wherever the extras do not
  carry these keys themselves (\<open>query\<close> is a named parameter, which Python never puts
  into \<open>**kwargs\<close>). Concretely the query \<open>"  cats  "\<close> with page 2 and page size 10
  gives the query \<open>cats\<close> and the offset \<open>10\<close>.
\<close>

theorem build_search_params_query_offset:
  "(strip (query a) = [] \<longrightarrow>
      build_search_params a = Inl (ValueError ''Query cannot be empty.''))
   \<and> (strip (query a) \<noteq> [] \<longrightarrow>
        (\<exists>base. build_search_params a = Inr (dict_update base (kwargs a))
           \<and> map_of base ''query'' = Some (PStr (strip (query a)))
           \<and> map_of base ''startat''
               = Some (PStr (str_int ((page a - 1) * results_per_page a)))))
   \<and> (strip (query a) \<noteq> [] \<longrightarrow>
        (\<exists>params. build_search_params a = Inr params
           \<and> (''query'' \<notin> set (dict_keys (kwargs a)) \<longrightarrow>
                map_of params ''query'' = Some (PStr (strip (query a))))
           \<and> (''startat'' \<notin> set (dict_keys (kwargs a)) \<longrightarrow>
                map_of params ''startat''
                  = Some (PStr (str_int ((page a - 1) * results_per_page a))))))
   \<and> (query a = ''  cats  '' \<and> page a = 2 \<and> results_per_page a = 10 \<longrightarrow>
        (\<exists>params. build_search_params a = Inr params
           \<and> (''query'' \<notin> set (dict_keys (kwargs a)) \<longrightarrow>
                map_of params ''query'' = Some (PStr ''cats''))
           \<and> (''startat'' \<notin> set (dict_keys (kwargs a)) \<longrightarrow>
                map_of params ''startat'' = Some (PStr ''10''))))"
proof (intro conjI impI)
  assume "strip (query a) = []"
  then show "build_search_params a = Inl (ValueError ''Query cannot be empty.'')"
    by (rule build_blank)
next
  assume "strip (query a) \<noteq> []"
  then show "\<exists>base. build_search_params a = Inr (dict_update base (kwargs a))
           \<and> map_of base ''query'' = Some (PStr (strip (query a)))
           \<and> map_of base ''startat''
               = Some (PStr (str_int ((page a - 1) * results_per_page a)))"
    by (rule build_base)
next
  assume "strip (query a) \<noteq> []"
  then obtain params where p: "build_search_params a = Inr params"
    using build_nonblank by blast
  show "\<exists>params. build_search_params a = Inr params
           \<and> (''query'' \<notin> set (dict_keys (kwargs a)) \<longrightarrow>
                map_of params ''query'' = Some (PStr (strip (query a))))
           \<and> (''startat'' \<notin> set (dict_keys (kwargs a)) \<longrightarrow>
                map_of params ''startat''
                  = Some (PStr (str_int ((page a - 1) * results_per_page a))))"
    using p build_query [OF p] build_startat [OF p] by blast
next
  assume c: "query a = ''  cats  '' \<and> page a = 2 \<and> results_per_page a = 10"
  then have "strip (query a) \<noteq> []"
    by (simp add: strip_cats)
  then obtain params where p: "build_search_params a = Inr params"
    using build_nonblank by blast
  have "''query'' \<notin> set (dict_keys (kwargs a)) \<longrightarrow> map_of params ''query'' = Some (PStr ''cats'')"
    using build_query [OF p] c by (simp add: strip_cats)
  moreover have "''startat'' \<notin> set (dict_keys (kwargs a)) \<longrightarrow> map_of params ''startat'' = Some (PStr ''10'')"
    using build_startat [OF p] c by (simp add: str_int_10)
  ultimately show "\<exists>params. build_search_params a = Inr params
           \<and> (''query'' \<notin> set (dict_keys (kwargs a)) \<longrightarrow>
                map_of params ''query'' = Some (PStr ''cats''))
           \<and> (''startat'' \<notin> set (dict_keys (kwargs a)) \<longrightarrow>
                map_of params ''startat'' = Some (PStr ''10''))"
    using p by blast
qed

text \<open>The empty query, and the query \<open>"  cats  "\<close> on page 2 with page size 10.\<close>

theorem build_search_params_query_offset_witness:
  "build_search_params (no_filters\<lparr>query := [], category := PStr ''web''\<rparr>)
     = Inl (ValueError ''Query cannot be empty.'')
   \<and> (case build_search_params
            (no_filters\<lparr>query := ''  cats  '', category := PStr ''web'', page := 2,
               results_per_page := 10\<rparr>) of
         Inl e \<Rightarrow> False
       | Inr params \<Rightarrow>
           map_of params ''query'' = Some (PStr ''cats'')
           \<and> map_of params ''startat'' = Some (PStr ''10''))"
  using build_search_params_query_offset [of "no_filters\<lparr>query := [], category := PStr ''web''\<rparr>"]
    build_search_params_query_offset
      [of "no_filters\<lparr>query := ''  cats  '', category := PStr ''web'', page := 2,
             results_per_page := 10\<rparr>"]
  by (auto simp: no_filters_def dict_keys_def strip_Nil strip_cats)

text \<open>
  C3, as amended. In the parameters the builder returns, and for every key the extras
  do not carry: a language that is not in \<open>LANGUAGE_CODES\<close> is sent as given (under
  \<open>language\<close> and \<open>lui\<close>), and so are a region that is not in \<open>REGION_CODES\<close>
  (\<open>pl\<close>), and, where the category admits the filter, a time filter that is not in
  \<open>TIME_FILTERS\<close> (\<open>with_date\<close>), an image size that is not in \<open>IMAGE_SIZES\<close>
  (\<open>size\<close>) and a video duration that is not in \<open>VIDEO_DURATIONS\<close> (\<open>duration\<close>).
  The safe-search lookup is the exception: a level that is not in
  \<open>SAFE_SEARCH_LEVELS\<close> is sent as \<open>0\<close>, the value for moderate.
\<close>

theorem table_lookup_defaults:
  assumes "build_search_params a = Inr params"
  shows "(''language'' \<notin> set (dict_keys (kwargs a)) \<and> map_of LANGUAGE_CODES (language a) = None
            \<longrightarrow> map_of params ''language'' = Some (PStr (language a)))
       \<and> (''lui'' \<notin> set (dict_keys (kwargs a)) \<and> map_of LANGUAGE_CODES (language a) = None
            \<longrightarrow> map_of params ''lui'' = Some (PStr (language a)))
       \<and> (''pl'' \<notin> set (dict_keys (kwargs a)) \<and> map_of REGION_CODES (region a) = None
            \<longrightarrow> map_of params ''pl'' = Some (PStr (region a)))
       \<and> (''with_date'' \<notin> set (dict_keys (kwargs a)) \<and> time_filter a = PStr tf \<and> tf \<noteq> []
            \<and> map_of TIME_FILTERS tf = None
            \<and> category a \<in> set [PStr ''web'', PStr ''video'', PStr ''news'']
            \<longrightarrow> map_of params ''with_date'' = Some (PStr tf))
       \<and> (''size'' \<notin> set (dict_keys (kwargs a)) \<and> size_filter a = PStr sz \<and> sz \<noteq> []
            \<and> map_of IMAGE_SIZES sz = None \<and> category a = PStr ''images''
            \<longrightarrow> map_of params ''size'' = Some (PStr sz))
       \<and> (''duration'' \<notin> set (dict_keys (kwargs a)) \<and> duration a = PStr du \<and> du \<noteq> []
            \<and> map_of VIDEO_DURATIONS du = None \<and> category a = PStr ''video''
            \<longrightarrow> map_of params ''duration'' = Some (PStr du))
       \<and> (''ff'' \<notin> set (dict_keys (kwargs a)) \<and> safe_search a = PStr ss \<and> ss \<noteq> []
            \<and> map_of SAFE_SEARCH_LEVELS ss = None
            \<and> category a \<notin> set [PStr ''news'', PStr ''places'']
            \<longrightarrow> map_of params ''ff'' = Some (PStr ''0''))"
proof -
  have any_t: "map_of TIME_FILTERS tf = None \<Longrightarrow> tf \<noteq> ''any''"
    and any_s: "map_of IMAGE_SIZES sz = None \<Longrightarrow> sz \<noteq> ''any''"
    and any_d: "map_of VIDEO_DURATIONS du = None \<Longrightarrow> du \<noteq> ''any''"
    by (auto simp: TIME_FILTERS_def IMAGE_SIZES_def VIDEO_DURATIONS_def)
  have 1: "''language'' \<notin> set (dict_keys (kwargs a)) \<and> map_of LANGUAGE_CODES (language a) = None
            \<longrightarrow> map_of params ''language'' = Some (PStr (language a))"
    using build_language [OF assms] by (simp add: table_get_def)
  have 2: "''lui'' \<notin> set (dict_keys (kwargs a)) \<and> map_of LANGUAGE_CODES (language a) = None
            \<longrightarrow> map_of params ''lui'' = Some (PStr (language a))"
    using build_lui [OF assms] by (simp add: table_get_def)
  have 3: "''pl'' \<notin> set (dict_keys (kwargs a)) \<and> map_of REGION_CODES (region a) = None
            \<longrightarrow> map_of params ''pl'' = Some (PStr (region a))"
    using build_pl [OF assms] by (simp add: table_get_def)
  have 4: "''with_date'' \<notin> set (dict_keys (kwargs a)) \<and> time_filter a = PStr tf \<and> tf \<noteq> []
            \<and> map_of TIME_FILTERS tf = None
            \<and> category a \<in> set [PStr ''web'', PStr ''video'', PStr ''news'']
            \<longrightarrow> map_of params ''with_date'' = Some (PStr tf)"
    using build_with_date [OF assms] any_t by (auto simp: table_get_def)
  have 5: "''size'' \<notin> set (dict_keys (kwargs a)) \<and> size_filter a = PStr sz \<and> sz \<noteq> []
            \<and> map_of IMAGE_SIZES sz = None \<and> category a = PStr ''images''
            \<longrightarrow> map_of params ''size'' = Some (PStr sz)"
    using build_size [OF assms] any_s by (auto simp: table_get_def)
  have 6: "''duration'' \<notin> set (dict_keys (kwargs a)) \<and> duration a = PStr du \<and> du \<noteq> []
            \<and> map_of VIDEO_DURATIONS du = None \<and> category a = PStr ''video''
            \<longrightarrow> map_of params ''duration'' = Some (PStr du)"
    using build_duration [OF assms] any_d by (auto simp: table_get_def)
  have 7: "''ff'' \<notin> set (dict_keys (kwargs a)) \<and> safe_search a = PStr ss \<and> ss \<noteq> []
            \<and> map_of SAFE_SEARCH_LEVELS ss = None
            \<and> category a \<notin> set [PStr ''news'', PStr ''places'']
            \<longrightarrow> map_of params ''ff'' = Some (PStr ''0'')"
    using build_ff [OF assms] by (auto simp: table_get_def)
  from 1 2 3 4 5 6 7 show ?thesis by blast
qed

lemmas table_defs = LANGUAGE_CODES_def REGION_CODES_def SAFE_SEARCH_LEVELS_def TIME_FILTERS_def
  IMAGE_SIZES_def VIDEO_DURATIONS_def

lemmas strip_eval = strip_def lstrip_def rstrip_def isspace_def whitespace_def

lemma str_int_0: "str_int 0 = ''0''"
  by (simp add: str_int_def str_nat.simps)

lemma str_int_20: "str_int 20 = ''20''"
  by (simp add: str_int_def str_nat.simps)

text \<open>
  C3 as stated fails for the safe-search table: for a web search with the unknown
  level \<open>bogus\<close> the builder sends \<open>ff = 0\<close>, not \<open>bogus\<close>.
\<close>

theorem unknown_safe_search_sent_as_moderate:
  "(case build_search_params
           (no_filters\<lparr>query := ''cats'', category := PStr ''web'',
              safe_search := PStr ''bogus''\<rparr>) of
      Inl e \<Rightarrow> None
    | Inr params \<Rightarrow> map_of params ''ff'') = Some (PStr ''0'')"
  by (simp add: build_search_params_def no_filters_def Let_def strip_eval table_get_def table_defs
      dict_update_def str_int_0 str_int_10)

text \<open>
  Unknown values for every table: a web search with an unknown language, region, time
  filter and safe-search level, a builder call for the category \<open>images\<close> with an
  unknown size, and one for the category \<open>video\<close> with an unknown duration.
\<close>

theorem table_lookup_defaults_witness:
  "(case build_search_params
           (no_filters\<lparr>query := ''cats'', category := PStr ''web'', language := ''xx'',
              region := ''zz'', safe_search := PStr ''bogus'',
              time_filter := PStr ''decade''\<rparr>) of
      Inl e \<Rightarrow> False
    | Inr params \<Rightarrow>
        map_of params ''language'' = Some (PStr ''xx'')
        \<and> map_of params ''lui'' = Some (PStr ''xx'')
        \<and> map_of params ''pl'' = Some (PStr ''zz'')
        \<and> map_of params ''with_date'' = Some (PStr ''decade'')
        \<and> map_of params ''ff'' = Some (PStr ''0''))
   \<and> (case build_search_params
           (no_filters\<lparr>query := ''cats'', category := PStr ''images'',
              size_filter := PStr ''huge''\<rparr>) of
      Inl e \<Rightarrow> False
    | Inr params \<Rightarrow> map_of params ''size'' = Some (PStr ''huge''))
   \<and> (case build_search_params
           (no_filters\<lparr>query := ''cats'', category := PStr ''video'',
              duration := PStr ''epic''\<rparr>) of
      Inl e \<Rightarrow> False
    | Inr params \<Rightarrow> map_of params ''duration'' = Some (PStr ''epic''))"
proof -
  let ?a = "no_filters\<lparr>query := ''cats'', category := PStr ''web'', language := ''xx'',
              region := ''zz'', safe_search := PStr ''bogus'',
              time_filter := PStr ''decade''\<rparr>"
  let ?b = "no_filters\<lparr>query := ''cats'', category := PStr ''images'',
              size_filter := PStr ''huge''\<rparr>"
  let ?c = "no_filters\<lparr>query := ''cats'', category := PStr ''video'',
              duration := PStr ''epic''\<rparr>"
  have q: "strip ''cats'' \<noteq> []"
    by (simp add: strip_eval)
  obtain pa where pa: "build_search_params ?a = Inr pa"
    using build_nonblank [of ?a] q by (auto simp: no_filters_def)
  obtain pb where pb: "build_search_params ?b = Inr pb"
    using build_nonblank [of ?b] q by (auto simp: no_filters_def)
  obtain pc where pc: "build_search_params ?c = Inr pc"
    using build_nonblank [of ?c] q by (auto simp: no_filters_def)
  have A: "map_of pa ''language'' = Some (PStr ''xx'') \<and> map_of pa ''lui'' = Some (PStr ''xx'')
      \<and> map_of pa ''pl'' = Some (PStr ''zz'') \<and> map_of pa ''with_date'' = Some (PStr ''decade'')
      \<and> map_of pa ''ff'' = Some (PStr ''0'')"
    using table_lookup_defaults [OF pa, of "''decade''" "[]" "[]" "''bogus''"]
    by (simp add: no_filters_def dict_keys_def table_defs)
  have B: "map_of pb ''size'' = Some (PStr ''huge'')"
    using table_lookup_defaults [OF pb, of "[]" "''huge''" "[]" "[]"]
    by (simp add: no_filters_def dict_keys_def table_defs)
  have C: "map_of pc ''duration'' = Some (PStr ''epic'')"
    using table_lookup_defaults [OF pc, of "[]" "[]" "''epic''" "[]"]
    by (simp add: no_filters_def dict_keys_def table_defs)
  show ?thesis
    using A B C by (simp add: pa pb pc)
qed

section \<open>Public operations and the blank query\<close>

lemma find_Some_member: "find P xs = Some x \<Longrightarrow> x \<in> set xs \<and> P x"
  by (induction xs) (auto split: if_splits)

lemma bind_collision:
  assumes "bind_perform_call ex a kw = Inl e"
  shows "set (dict_keys kw) \<inter> set ex \<noteq> {}" and "\<exists>m. e = TypeError m"
proof -
  obtain k where k: "find (\<lambda>k. k \<in> set ex) (dict_keys kw) = Some k"
    using assms by (cases "find (\<lambda>k. k \<in> set ex) (dict_keys kw)") (simp_all add: bind_perform_call_def)
  from find_Some_member [OF k] show "set (dict_keys kw) \<inter> set ex \<noteq> {}"
    by blast
  from assms k show "\<exists>m. e = TypeError m"
    by (simp add: bind_perform_call_def) blast
qed

lemma bind_result:
  assumes "bind_perform_call ex a kw = Inr a'"
  shows "find (\<lambda>k. k \<in> set ex) (dict_keys kw) = None"
    and "a' = a\<lparr>safe_search := (case map_of kw ''safe_search'' of Some v \<Rightarrow> v | None \<Rightarrow> safe_search a),
                time_filter := (case map_of kw ''time_filter'' of Some v \<Rightarrow> v | None \<Rightarrow> time_filter a),
                size_filter := (case map_of kw ''size'' of Some v \<Rightarrow> v | None \<Rightarrow> size_filter a),
                duration := (case map_of kw ''duration'' of Some v \<Rightarrow> v | None \<Rightarrow> duration a),
                latitude := (case map_of kw ''latitude'' of Some v \<Rightarrow> v | None \<Rightarrow> latitude a),
                longitude := (case map_of kw ''longitude'' of Some v \<Rightarrow> v | None \<Rightarrow> longitude a),
                radius := (case map_of kw ''radius'' of Some v \<Rightarrow> v | None \<Rightarrow> radius a),
                kwargs := filter (\<lambda>(k, v). k \<notin> set perform_param_names) kw\<rparr>"
proof -
  show n: "find (\<lambda>k. k \<in> set ex) (dict_keys kw) = None"
    using assms by (cases "find (\<lambda>k. k \<in> set ex) (dict_keys kw)") (simp_all add: bind_perform_call_def)
  show "a' = a\<lparr>safe_search := (case map_of kw ''safe_search'' of Some v \<Rightarrow> v | None \<Rightarrow> safe_search a),
                time_filter := (case map_of kw ''time_filter'' of Some v \<Rightarrow> v | None \<Rightarrow> time_filter a),
                size_filter := (case map_of kw ''size'' of Some v \<Rightarrow> v | None \<Rightarrow> size_filter a),
                duration := (case map_of kw ''duration'' of Some v \<Rightarrow> v | None \<Rightarrow> duration a),
                latitude := (case map_of kw ''latitude'' of Some v \<Rightarrow> v | None \<Rightarrow> latitude a),
                longitude := (case map_of kw ''longitude'' of Some v \<Rightarrow> v | None \<Rightarrow> longitude a),
                radius := (case map_of kw ''radius'' of Some v \<Rightarrow> v | None \<Rightarrow> radius a),
                kwargs := filter (\<lambda>(k, v). k \<notin> set perform_param_names) kw\<rparr>"
    using assms unfolding bind_perform_call_def Let_def n by simp
qed

lemma bind_no_collision:
  "bind_perform_call ex a kw = Inr a' \<Longrightarrow> set (dict_keys kw) \<inter> set ex = {}"
  using bind_result(1) [of ex a kw a'] by (auto simp: find_None_iff)

lemma bind_keeps:
  assumes "bind_perform_call ex a kw = Inr a'"
  shows "query a' = query a" and "category a' = category a"
    and "kwargs a' = filter (\<lambda>(k, v). k \<notin> set perform_param_names) kw"
  unfolding bind_result(2) [OF assms] by simp_all

lemma call_blank:
  assumes "strip (query a) = []"
  shows "\<exists>e. call_perform_search_request ev c w ex a cfp kw = (Inl e, c, w)
           \<and> (if set (dict_keys kw) \<inter> set ex = {}
               then e = ValueError ''Query cannot be empty.''
               else (\<exists>m. e = TypeError m))"
proof (cases "bind_perform_call ex a kw")
  case (Inl e)
  with bind_collision [OF Inl] show ?thesis
    by (simp add: call_perform_search_request_def)
next
  case (Inr a')
  have "strip (query a') = []"
    using assms bind_keeps(1) [OF Inr] by simp
  then have "build_search_params a' = Inl (ValueError ''Query cannot be empty.'')"
    by (rule build_blank)
  with Inr bind_no_collision [OF Inr] show ?thesis
    by (simp add: call_perform_search_request_def perform_search_request_def)
qed

text \<open>
  C2, as amended. When the query is empty or consists of whitespace only, \<open>search\<close>,
  \<open>images_search\<close>, \<open>videos_search\<close>, \<open>news_search\<close>, \<open>places_search\<close> and
  \<open>advanced_search\<close> fail and return the client and the world as they were, so before
  any request: with \<open>ValueError\<close>, unless an extra keyword argument repeats a keyword
  the operation itself passes to \<open>_perform_search_request\<close>, in which case the call
  fails with Python's \<open>TypeError\<close>. \<open>instant_answers\<close> does not fail: it returns the
  empty bundle, also without any request.
\<close>

theorem blank_query_rejected_before_io:
  assumes "\<forall>ch \<in> set q. isspace ch"
  shows "(\<exists>e. search ev c w q lang reg safe tf pg rpp kw = (Inl e, c, w)
            \<and> (if set (dict_keys kw) \<inter> set search_keywords = {}
                then e = ValueError ''Query cannot be empty.''
                else (\<exists>m. e = TypeError m)))
       \<and> (\<exists>e. images_search ev c w q lang reg safe sz pg rpp kw = (Inl e, c, w)
            \<and> (if set (dict_keys kw) \<inter> set images_search_keywords = {}
                then e = ValueError ''Query cannot be empty.''
                else (\<exists>m. e = TypeError m)))
       \<and> (\<exists>e. videos_search ev c w q lang reg safe dur tf pg rpp kw = (Inl e, c, w)
            \<and> (if set (dict_keys kw) \<inter> set videos_search_keywords = {}
                then e = ValueError ''Query cannot be empty.''
                else (\<exists>m. e = TypeError m)))
       \<and> (\<exists>e. news_search ev c w q lang reg tf pg rpp kw = (Inl e, c, w)
            \<and> (if set (dict_keys kw) \<inter> set news_search_keywords = {}
                then e = ValueError ''Query cannot be empty.''
                else (\<exists>m. e = TypeError m)))
       \<and> (\<exists>e. places_search ev c w q lang reg lat lon rad pg rpp kw = (Inl e, c, w)
            \<and> (if set (dict_keys kw) \<inter> set places_search_keywords = {}
                then e = ValueError ''Query cannot be empty.''
                else (\<exists>m. e = TypeError m)))
       \<and> advanced_search ev c w q kw
            = (Inl (ValueError ''Query cannot be empty for advanced search.''), c, w)
       \<and> instant_answers ev c w q lang kw
            = (Inr \<lparr>instant_answer = None, knowledge_panel = None\<rparr>, c, w)"
proof -
  have b: "strip q = []"
    using assms by (simp add: strip_eq_Nil_iff)
  show ?thesis
    unfolding search_def images_search_def videos_search_def news_search_def places_search_def
    by (intro conjI call_blank) (simp_all add: b advanced_search_def instant_answers_def)
qed

text \<open>A query of two spaces and no extra keyword arguments, on a newly made client.\<close>

theorem blank_query_rejected_before_io_witness:
  "isspace CHR '' ''
   \<and> search (fixed_env (OtherError []) None None) (init_client None 30 1) (fresh_world 0)
        ''  '' ''en'' ''all'' ''moderate'' ''any'' 1 10 []
       = (Inl (ValueError ''Query cannot be empty.''), init_client None 30 1, fresh_world 0)
   \<and> images_search (fixed_env (OtherError []) None None) (init_client None 30 1) (fresh_world 0)
        ''  '' ''en'' ''all'' ''moderate'' ''any'' 1 20 []
       = (Inl (ValueError ''Query cannot be empty.''), init_client None 30 1, fresh_world 0)
   \<and> videos_search (fixed_env (OtherError []) None None) (init_client None 30 1) (fresh_world 0)
        ''  '' ''en'' ''all'' ''moderate'' ''any'' ''any'' 1 10 []
       = (Inl (ValueError ''Query cannot be empty.''), init_client None 30 1, fresh_world 0)
   \<and> news_search (fixed_env (OtherError []) None None) (init_client None 30 1) (fresh_world 0)
        ''  '' ''en'' ''all'' ''any'' 1 10 []
       = (Inl (ValueError ''Query cannot be empty.''), init_client None 30 1, fresh_world 0)
   \<and> places_search (fixed_env (OtherError []) None None) (init_client None 30 1) (fresh_world 0)
        ''  '' ''en'' ''all'' PNone PNone PNone 1 10 []
       = (Inl (ValueError ''Query cannot be empty.''), init_client None 30 1, fresh_world 0)
   \<and> advanced_search (fixed_env (OtherError []) None None) (init_client None 30 1) (fresh_world 0)
        ''  '' []
       = (Inl (ValueError ''Query cannot be empty for advanced search.''),
          init_client None 30 1, fresh_world 0)
   \<and> instant_answers (fixed_env (OtherError []) None None) (init_client None 30 1) (fresh_world 0)
        ''  '' ''en'' []
       = (Inr \<lparr>instant_answer = None, knowledge_panel = None\<rparr>, init_client None 30 1,
          fresh_world 0)"
proof -
  have s: "\<forall>ch \<in> set ''  ''. isspace ch"
    by (simp add: isspace_def whitespace_def)
  show ?thesis
    using blank_query_rejected_before_io [OF s, of "fixed_env (OtherError []) None None"
        "init_client None 30 1" "fresh_world 0" "''en''" "''all''" "''moderate''" "''any''" 1 10 "[]"
        "''any''" "''any''" PNone PNone PNone]
      blank_query_rejected_before_io [OF s, of "fixed_env (OtherError []) None None"
        "init_client None 30 1" "fresh_world 0" "''en''" "''all''" "''moderate''" "''any''" 1 20 "[]"
        "''any''" "''any''" PNone PNone PNone]
    by (auto simp: dict_keys_def isspace_def whitespace_def)
qed

text \<open>
  C2 as stated fails for \<open>instant_answers\<close>: with the empty query it returns a bundle
  instead of failing.
\<close>

theorem instant_answers_blank_does_not_fail:
  "instant_answers (fixed_env (OtherError []) None None) (init_client None 30 1) (fresh_world 0)
     [] ''en'' []
   = (Inr \<lparr>instant_answer = None, knowledge_panel = None\<rparr>, init_client None 30 1, fresh_world 0)"
  by (simp add: instant_answers_def strip_Nil)

section \<open>What the search operations send\<close>

lemma make_request_world:
  "sent (snd (snd (make_request ev c w url data headers)))
     = sent w @
       (if request_error ev (prepare_request (fst (respect_delay c w)) url data headers) = None
        then [prepare_request (fst (respect_delay c w)) url data headers] else [])"
proof -
  obtain c1 w1 where d: "respect_delay c w = (c1, w1)"
    by (cases "respect_delay c w")
  have s: "sent w1 = sent w"
    using d by (rule respect_delay_sent)
  show ?thesis
    unfolding make_request_cases [OF d refl refl]
    by (simp add: d s split: option.splits outcome.splits sum.splits)
qed

lemma perform_world:
  assumes "build_search_params a = Inr params"
  shows "map req_data (sent (snd (snd (perform_search_request ev c w a cfp))))
           = map req_data (sent w) @
             (if request_error ev
                   (prepare_request (fst (respect_delay c w)) SEARCH_URL (Some params) None) = None
              then [if params = [] then None else Some params] else [])"
proof -
  have "snd (snd (perform_search_request ev c w a cfp))
          = snd (snd (make_request ev c w SEARCH_URL (Some params) None))"
    by (simp add: perform_search_request_def assms split: prod.splits sum.splits)
  then show ?thesis
    by (simp add: make_request_world) (simp add: prepare_request_def)
qed

lemma perform_world_failed:
  "build_search_params a = Inl e \<Longrightarrow> perform_search_request ev c w a cfp = (Inl e, c, w)"
  by (simp add: perform_search_request_def)

text \<open>
  What a search operation sends, in general: nothing, or the parameters the builder
  returns for the arguments as bound.
\<close>

lemma call_world:
  "sent (snd (snd (call_perform_search_request ev c w ex a cfp kw))) = sent w
   \<or> (\<exists>a' params. bind_perform_call ex a kw = Inr a' \<and> build_search_params a' = Inr params
        \<and> map req_data (sent (snd (snd (call_perform_search_request ev c w ex a cfp kw))))
             = map req_data (sent w) @ [if params = [] then None else Some params])"
proof (cases "bind_perform_call ex a kw")
  case (Inl e)
  then show ?thesis by (simp add: call_perform_search_request_def)
next
  case (Inr a')
  show ?thesis
  proof (cases "build_search_params a'")
    case (Inl e)
    then show ?thesis
      using Inr by (simp add: call_perform_search_request_def perform_world_failed)
  next
    case r: (Inr params)
    have c: "call_perform_search_request ev c w ex a cfp kw = perform_search_request ev c w a' cfp"
      using Inr by (simp add: call_perform_search_request_def)
    show ?thesis
    proof (cases "request_error ev
                   (prepare_request (fst (respect_delay c w)) SEARCH_URL (Some params) None) = None")
      case True
      then have "map req_data (sent (snd (snd (perform_search_request ev c w a' cfp))))
             = map req_data (sent w) @ [if params = [] then None else Some params]"
        using perform_world [OF r, of ev c w cfp] by (simp split del: if_split)
      then show ?thesis
        using Inr r c by (simp split del: if_split)
    next
      case False
      have "snd (snd (perform_search_request ev c w a' cfp))
          = snd (snd (make_request ev c w SEARCH_URL (Some params) None))"
        by (simp add: perform_search_request_def r split: prod.splits sum.splits)
      then have "sent (snd (snd (perform_search_request ev c w a' cfp))) = sent w"
        using False by (simp add: make_request_world)
      then show ?thesis
        using c by simp
    qed
  qed
qed

lemma filtered_keys:
  "k \<in> set perform_param_names \<Longrightarrow>
     k \<notin> set (dict_keys (filter (\<lambda>(k, v). k \<notin> set perform_param_names) kw))"
  by (auto simp: dict_keys_def)

text \<open>
  The builder adds \<open>size\<close> only for the category \<open>images\<close> and the location
  parameters only for the category \<open>places\<close>, but \<open>images_search\<close> passes the
  category \<open>pics\<close> and \<open>places_search\<close> passes \<open>map\<close>. So whatever the arguments,
  a call of \<open>images_search\<close> either sends nothing or sends parameters without
  \<open>size\<close>, and a call of \<open>places_search\<close> either sends nothing or sends parameters
  without \<open>latitude\<close>, \<open>longitude\<close> and \<open>radius\<close>.
\<close>

lemma images_search_never_sends_size:
  "sent (snd (snd (images_search ev c w q lang reg safe sz pg rpp kw))) = sent w
   \<or> (\<exists>params.
        map req_data (sent (snd (snd (images_search ev c w q lang reg safe sz pg rpp kw))))
          = map req_data (sent w) @ [if params = [] then None else Some params]
        \<and> map_of params ''size'' = None)"
proof -
  let ?a = "no_filters\<lparr>query := q, category := PStr ''pics'', language := lang, region := reg,
          safe_search := PStr safe, page := pg, results_per_page := rpp,
          size_filter := PStr sz\<rparr>"
  from call_world [of ev c w images_search_keywords ?a "''images''" kw]
  show ?thesis
  proof
    assume "sent (snd (snd (call_perform_search_request ev c w images_search_keywords ?a ''images'' kw)))
              = sent w"
    then show ?thesis by (simp add: images_search_def)
  next
    assume "\<exists>a' params. bind_perform_call images_search_keywords ?a kw = Inr a'
        \<and> build_search_params a' = Inr params
        \<and> map req_data (sent (snd (snd (call_perform_search_request ev c w images_search_keywords ?a ''images'' kw))))
             = map req_data (sent w) @ [if params = [] then None else Some params]"
    then obtain a' params where b: "bind_perform_call images_search_keywords ?a kw = Inr a'"
      and p: "build_search_params a' = Inr params"
      and s: "map req_data (sent (snd (snd (call_perform_search_request ev c w images_search_keywords ?a ''images'' kw))))
             = map req_data (sent w) @ [if params = [] then None else Some params]"
      by blast
    have c: "category a' = PStr ''pics''"
      using bind_keeps(2) [OF b] by simp
    have k: "''size'' \<notin> set (dict_keys (kwargs a'))"
      unfolding bind_keeps(3) [OF b] by (rule filtered_keys) (simp add: perform_param_names_def)
    have "map_of params ''size'' = None"
      using build_size [OF p k] c by simp
    with s show ?thesis
      by (auto simp: images_search_def)
  qed
qed

lemma places_search_never_sends_location:
  "sent (snd (snd (places_search ev c w q lang reg lat lon rad pg rpp kw))) = sent w
   \<or> (\<exists>params.
        map req_data (sent (snd (snd (places_search ev c w q lang reg lat lon rad pg rpp kw))))
          = map req_data (sent w) @ [if params = [] then None else Some params]
        \<and> map_of params ''latitude'' = None \<and> map_of params ''longitude'' = None
        \<and> map_of params ''radius'' = None)"
proof -
  let ?a = "no_filters\<lparr>query := q, category := PStr ''map'', language := lang, region := reg,
          safe_search := PNone, page := pg, results_per_page := rpp,
          latitude := lat, longitude := lon, radius := rad\<rparr>"
  from call_world [of ev c w places_search_keywords ?a "''places''" kw]
  show ?thesis
  proof
    assume "sent (snd (snd (call_perform_search_request ev c w places_search_keywords ?a ''places'' kw)))
              = sent w"
    then show ?thesis by (simp add: places_search_def)
  next
    assume "\<exists>a' params. bind_perform_call places_search_keywords ?a kw = Inr a'
        \<and> build_search_params a' = Inr params
        \<and> map req_data (sent (snd (snd (call_perform_search_request ev c w places_search_keywords ?a ''places'' kw))))
             = map req_data (sent w) @ [if params = [] then None else Some params]"
    then obtain a' params where b: "bind_perform_call places_search_keywords ?a kw = Inr a'"
      and p: "build_search_params a' = Inr params"
      and s: "map req_data (sent (snd (snd (call_perform_search_request ev c w places_search_keywords ?a ''places'' kw))))
             = map req_data (sent w) @ [if params = [] then None else Some params]"
      by blast
    have c: "category a' = PStr ''map''"
      using bind_keeps(2) [OF b] by simp
    have k: "''latitude'' \<notin> set (dict_keys (kwargs a'))" "''longitude'' \<notin> set (dict_keys (kwargs a'))"
      "''radius'' \<notin> set (dict_keys (kwargs a'))"
      unfolding bind_keeps(3) [OF b] by (rule filtered_keys, simp add: perform_param_names_def)+
    have "map_of params ''latitude'' = None" "map_of params ''longitude'' = None"
      "map_of params ''radius'' = None"
      using build_latitude [OF p k(1)] build_longitude [OF p k(2)] build_radius [OF p k(3)] c
      by simp_all
    with s show ?thesis
      by (auto simp: places_search_def)
  qed
qed

lemma images_args:
  "bind_perform_call images_search_keywords
     (no_filters\<lparr>query := ''cats'', category := PStr ''pics'', language := ''en'', region := ''all'',
          safe_search := PStr ''moderate'', page := 1, results_per_page := 20,
          size_filter := PStr ''large''\<rparr>) []
   = Inr (no_filters\<lparr>query := ''cats'', category := PStr ''pics'', language := ''en'', region := ''all'',
          safe_search := PStr ''moderate'', page := 1, results_per_page := 20,
          size_filter := PStr ''large''\<rparr>)"
  by (simp add: bind_perform_call_def dict_keys_def no_filters_def)

lemma images_params:
  "build_search_params
     (no_filters\<lparr>query := ''cats'', category := PStr ''pics'', language := ''en'', region := ''all'',
          safe_search := PStr ''moderate'', page := 1, results_per_page := 20,
          size_filter := PStr ''large''\<rparr>)
   = Inr [(''query'', PStr ''cats''), (''cat'', PStr ''pics''), (''cmd'', PStr ''process_search''),
          (''language'', PStr ''en''), (''lui'', PStr ''en''), (''pl'', PStr ''all''),
          (''startat'', PStr ''0''), (''ff'', PStr ''0'')]"
  by (simp add: build_search_params_def no_filters_def Let_def strip_eval table_get_def table_defs
      dict_update_def str_int_0)

lemma places_args:
  "bind_perform_call places_search_keywords
     (no_filters\<lparr>query := ''cafe'', category := PStr ''map'', language := ''en'', region := ''all'',
          safe_search := PNone, page := 1, results_per_page := 10,
          latitude := PFloat ''48.85'', longitude := PFloat ''2.35'', radius := PInt 500\<rparr>) []
   = Inr (no_filters\<lparr>query := ''cafe'', category := PStr ''map'', language := ''en'', region := ''all'',
          safe_search := PNone, page := 1, results_per_page := 10,
          latitude := PFloat ''48.85'', longitude := PFloat ''2.35'', radius := PInt 500\<rparr>)"
  by (simp add: bind_perform_call_def dict_keys_def no_filters_def)

lemma places_params:
  "build_search_params
     (no_filters\<lparr>query := ''cafe'', category := PStr ''map'', language := ''en'', region := ''all'',
          safe_search := PNone, page := 1, results_per_page := 10,
          latitude := PFloat ''48.85'', longitude := PFloat ''2.35'', radius := PInt 500\<rparr>)
   = Inr [(''query'', PStr ''cafe''), (''cat'', PStr ''map''), (''cmd'', PStr ''process_search''),
          (''language'', PStr ''en''), (''lui'', PStr ''en''), (''pl'', PStr ''all''),
          (''startat'', PStr ''0'')]"
  by (simp add: build_search_params_def no_filters_def Let_def strip_eval table_get_def table_defs
      dict_update_def str_int_0)

text \<open>
  C1. The claim is that an \<open>images_search\<close> call with a size other than \<open>any\<close>
  yields parameters with the mapped size, and a \<open>places_search\<close> call with latitude,
  longitude and radius yields parameters with the three. The code does neither:
  \<open>images_search\<close> with the size \<open>large\<close> sends the parameters below, which hold
  no \<open>size\<close>, and \<open>places_search\<close> with a latitude, a longitude and a radius sends
  parameters that hold none of them. (That one request is all either call sends; it
  sends none where the request object cannot be made.)
\<close>

theorem size_and_location_filters_not_sent:
  "(let params =
          [(''query'', PStr ''cats''), (''cat'', PStr ''pics''), (''cmd'', PStr ''process_search''),
           (''language'', PStr ''en''), (''lui'', PStr ''en''), (''pl'', PStr ''all''),
           (''startat'', PStr ''0''), (''ff'', PStr ''0'')]
    in map req_data (sent (snd (snd
         (images_search ev c w ''cats'' ''en'' ''all'' ''moderate'' ''large'' 1 20 []))))
       = map req_data (sent w) @
         (if request_error ev
               (prepare_request (fst (respect_delay c w)) SEARCH_URL (Some params) None) = None
          then [Some params] else []))
   \<and> (let params =
          [(''query'', PStr ''cafe''), (''cat'', PStr ''map''), (''cmd'', PStr ''process_search''),
           (''language'', PStr ''en''), (''lui'', PStr ''en''), (''pl'', PStr ''all''),
           (''startat'', PStr ''0'')]
      in map req_data (sent (snd (snd
           (places_search ev c w ''cafe'' ''en'' ''all'' (PFloat ''48.85'') (PFloat ''2.35'')
              (PInt 500) 1 10 []))))
         = map req_data (sent w) @
           (if request_error ev
                 (prepare_request (fst (respect_delay c w)) SEARCH_URL (Some params) None) = None
            then [Some params] else []))"
  using perform_world [OF images_params, of ev c w "''images''"]
    perform_world [OF places_params, of ev c w "''places''"]
  by (simp add: images_search_def places_search_def call_perform_search_request_def
      images_args places_args Let_def)

section \<open>Suggestions\<close>

text \<open>
  The two paths of \<open>parse_suggestions\<close>: a JSON array whose second element is an
  array is converted entry by entry and cut to ten; anything else goes to the scan of
  the markup.
\<close>

lemma parse_suggestions_json:
  "json_loads ev txt = Some (JArr (first # JArr entries # rest)) \<Longrightarrow>
     parse_suggestions ev txt = take 10 (List.map_filter suggestion_of_json entries)"
  by (simp add: parse_suggestions_def)

lemma parse_suggestions_markup:
  assumes "\<And>first entries rest. json_loads ev txt \<noteq> Some (JArr (first # JArr entries # rest))"
  shows "parse_suggestions ev txt =
     (case html_soup ev txt of
        None \<Rightarrow> []
      | Some sp \<Rightarrow> take 10 (foldl add_suggestion [] (suggestion_elements sp)))"
  using assms
  by (simp add: parse_suggestions_def split: option.splits json.splits list.splits)

text \<open>
  On both paths the result has at most ten entries; on the markup path it holds no
  entry twice; and the example of the specification gives \<open>qa\<close>, \<open>qb\<close>, \<open>qc\<close>.
\<close>

lemma add_suggestion_distinct: "distinct acc \<Longrightarrow> distinct (add_suggestion acc elem)"
  by (simp add: add_suggestion_def Let_def)

lemma foldl_add_suggestion_distinct:
  "distinct acc \<Longrightarrow> distinct (foldl add_suggestion acc elems)"
  by (induction elems arbitrary: acc) (simp_all add: add_suggestion_distinct)

lemma parse_suggestions_length: "length (parse_suggestions ev txt) \<le> 10"
  by (simp add: parse_suggestions_def split: option.splits json.splits list.splits)

lemma parse_suggestions_markup_distinct:
  assumes "\<And>first entries rest. json_loads ev txt \<noteq> Some (JArr (first # JArr entries # rest))"
  shows "distinct (parse_suggestions ev txt)"
  unfolding parse_suggestions_markup [OF assms]
  by (simp add: foldl_add_suggestion_distinct distinct_take split: option.splits)

lemma parse_suggestions_example:
  "json_loads ev txt = Some (JArr [JStr ''q'', JArr [JStr ''qa'', JStr ''qb'', JStr ''qc'']]) \<Longrightarrow>
     parse_suggestions ev txt = [''qa'', ''qb'', ''qc'']"
  by (simp add: parse_suggestions_json List.map_filter_simps)

text \<open>
  C4. The claim is that the list \<open>parse_suggestions\<close> returns holds no entry twice,
  on the JSON path as on the markup path. The markup path checks
  \<open>text.strip() not in suggestions\<close> before it appends; the JSON path does not: for
  the JSON array \<open>["q", ["a", "a"]]\<close> the result is \<open>a\<close> twice.
\<close>

theorem json_suggestions_keep_duplicates:
  "json_loads ev txt = Some (JArr [JStr ''q'', JArr [JStr ''a'', JStr ''a'']]) \<Longrightarrow>
     parse_suggestions ev txt = [''a'', ''a''] \<and> \<not> distinct (parse_suggestions ev txt)"
  by (simp add: parse_suggestions_json List.map_filter_simps)

text \<open>An environment whose \<open>json.loads\<close> gives that array.\<close>

theorem json_suggestions_keep_duplicates_witness:
  "parse_suggestions
     (fixed_env (Response [] None) (Some (JArr [JStr ''q'', JArr [JStr ''a'', JStr ''a'']])) None)
     [] = [''a'', ''a'']"
  using json_suggestions_keep_duplicates
    [of "fixed_env (Response [] None) (Some (JArr [JStr ''q'', JArr [JStr ''a'', JStr ''a'']])) None" "[]"]
  by (simp add: fixed_env_def)

section \<open>Instant answers: one finding for one fact\<close>

text \<open>
  C8. Let \<open>instant_answers\<close> be called with a query that is not blank, and let its
  request succeed with some page. When the detectors find on that page an instant
  answer (a non-empty text) and a knowledge panel with a non-empty description, and one
  of the two texts occurs in the other, the bundle \<open>instant_answers\<close> returns has
  exactly one of them cleared: if the panel has a non-empty title, the instant answer
  is \<open>None\<close> and the panel is kept; if the title is empty, the panel is \<open>None\<close> and
  the instant answer is kept.
\<close>

theorem instant_answers_dedup:
  assumes "strip q \<noteq> []"
    and "make_request ev c w SEARCH_URL
           (Some (dict_update
              [(''query'', PStr (strip q)), (''cat'', PStr ''web''),
               (''cmd'', PStr ''process_search''),
               (''language'', table_get LANGUAGE_CODES (PStr lang) (PStr lang)),
               (''lui'', table_get LANGUAGE_CODES (PStr lang) (PStr lang))] kw)) None
         = (Inr html_content, c', w')"
    and "detect_instant_answer ev html_content q = Some a" and "a \<noteq> []"
    and "detect_knowledge_panel ev html_content = Some p" and "description p \<noteq> []"
    and "py_in a (description p) \<or> py_in (description p) a"
  shows "instant_answers ev c w q lang kw
     = (Inr (if title p \<noteq> [] then \<lparr>instant_answer = None, knowledge_panel = Some p\<rparr>
             else \<lparr>instant_answer = Some a, knowledge_panel = None\<rparr>), c', w')"
  unfolding instant_answers_assembles [OF assms(1) assms(2)] assms(3) assms(5)
    assemble_bundle_dedup [OF assms(4) assms(6) assms(7)]
  by (rule refl)

text \<open>
  A page on which the calculator detector finds \<open>42\<close> and the generic panel detector
  finds a panel whose description holds \<open>42\<close>, once with a title and once without.
\<close>

theorem instant_answers_dedup_witness:
  "fst (instant_answers
          ((fixed_env (Response ''page'' None) None None)
             \<lparr>extract_calculator_answer := (\<lambda>html. Some ''42''),
              extract_generic_knowledge_panel :=
                (\<lambda>html. Some \<lparr>title = ''Answer'', description = ''The answer is 42.'',
                                facts = [], source = ''Knowledge Panel''\<rparr>)\<rparr>)
          (init_client None 30 1) (fresh_world 5) ''6 times 7'' ''en'' [])
     = Inr \<lparr>instant_answer = None,
            knowledge_panel = Some \<lparr>title = ''Answer'', description = ''The answer is 42.'',
                                    facts = [], source = ''Knowledge Panel''\<rparr>\<rparr>
   \<and> fst (instant_answers
          ((fixed_env (Response ''page'' None) None None)
             \<lparr>extract_calculator_answer := (\<lambda>html. Some ''42''),
              extract_generic_knowledge_panel :=
                (\<lambda>html. Some \<lparr>title = [], description = ''The answer is 42.'',
                                facts = [], source = ''Knowledge Panel''\<rparr>)\<rparr>)
          (init_client None 30 1) (fresh_world 5) ''6 times 7'' ''en'' [])
     = Inr \<lparr>instant_answer = Some ''42'', knowledge_panel = None\<rparr>"
proof -
  let ?c = "init_client None 30 1" and ?w = "fresh_world 5"
  let ?c1 = "?c\<lparr>last_request_time := 5\<rparr>"
  let ?P = "\<lparr>title = ''Answer'', description = ''The answer is 42.'', facts = [],
             source = ''Knowledge Panel''\<rparr>"
  let ?Q = "\<lparr>title = [], description = ''The answer is 42.'', facts = [],
             source = ''Knowledge Panel''\<rparr>"
  let ?E = "(fixed_env (Response ''page'' None) None None)
             \<lparr>extract_calculator_answer := (\<lambda>html. Some ''42''),
              extract_generic_knowledge_panel := (\<lambda>html. Some ?P)\<rparr>"
  let ?F = "(fixed_env (Response ''page'' None) None None)
             \<lparr>extract_calculator_answer := (\<lambda>html. Some ''42''),
              extract_generic_knowledge_panel := (\<lambda>html. Some ?Q)\<rparr>"
  let ?params = "dict_update
              [(''query'', PStr (strip ''6 times 7'')), (''cat'', PStr ''web''),
               (''cmd'', PStr ''process_search''),
               (''language'', table_get LANGUAGE_CODES (PStr ''en'') (PStr ''en'')),
               (''lui'', table_get LANGUAGE_CODES (PStr ''en'') (PStr ''en''))] []"
  let ?w2 = "?w\<lparr>sent := sent ?w @ [prepare_request ?c1 SEARCH_URL (Some ?params) None]\<rparr>"
  have d: "respect_delay ?c ?w = (?c1, ?w)"
    by (simp add: respect_delay_def init_client_def fresh_world_def Let_def)
  have q: "strip ''6 times 7'' \<noteq> []"
    by (simp add: strip_eval)
  have mE: "make_request ?E ?c ?w SEARCH_URL (Some ?params) None = (Inr ''page'', ?c1, ?w2)"
    unfolding make_request_cases [OF d refl refl] by (simp add: fixed_env_def)
  have mF: "make_request ?F ?c ?w SEARCH_URL (Some ?params) None = (Inr ''page'', ?c1, ?w2)"
    unfolding make_request_cases [OF d refl refl] by (simp add: fixed_env_def)
  have iE: "detect_instant_answer ?E ''page'' ''6 times 7'' = Some ''42''"
    and iF: "detect_instant_answer ?F ''page'' ''6 times 7'' = Some ''42''"
    by (simp_all add: detect_instant_answer_def answer_found_def fixed_env_def)
  have kE: "detect_knowledge_panel ?E ''page'' = Some ?P"
    and kF: "detect_knowledge_panel ?F ''page'' = Some ?Q"
    by (simp_all add: detect_knowledge_panel_def fixed_env_def)
  have n: "''42'' \<noteq> []"
    by simp
  have dP: "description ?P \<noteq> []" and dQ: "description ?Q \<noteq> []"
    by simp_all
  have sP: "py_in ''42'' (description ?P) \<or> py_in (description ?P) ''42''"
    and sQ: "py_in ''42'' (description ?Q) \<or> py_in (description ?Q) ''42''"
    by (simp_all add: startswith_def)
  show ?thesis
    using instant_answers_dedup [OF q mE iE n kE dP sP]
      instant_answers_dedup [OF q mF iF n kF dQ sQ]
    by simp
qed

end
